theory Spec2Isabelle
  imports Main
begin


section \<open>JavaScript values\<close>

text \<open>
  The schema compiler (class \<open>FormlyJsonschema\<close>) works on plain JavaScript values: the
  JSON schema document, the field descriptors it builds, and the functions it stores in
  them. A function value is a closure: a tag naming the arrow function of the source and
  the values it captured. Objects are association lists in insertion order, with one entry
  per key. Numbers are restricted to integers.
\<close>

datatype closure =
    VNull | VExclusiveMinimum | VExclusiveMaximum | VMultipleOf
  | VMinItems | VMaxItems | VUniqueItems | VConst
  | ParseNumber | ParseNullable
  | RequiredIfAny | HideConstNeq | HideIfEmpty | HideDyn | HideUnion
  | FieldArrayGetter | Inherited

datatype jsv =
    Undefined | Null | Bool bool | Num int | Str string
  | Arr "jsv list" | Obj "(string \<times> jsv) list"
  | Fun closure "jsv list"

datatype error = EmptyAllOf | RemoteRef string | NoDefinition string | TypeError

text \<open>
  A computation of the compiler either runs out of fuel (\<open>None\<close>: the recursion of the
  source does not end, as on a cycle of references), throws (\<open>Some (Inl e)\<close>) or returns
  (\<open>Some (Inr v)\<close>).
\<close>

type_synonym 'a res = "(error + 'a) option"

definition ret :: "'a \<Rightarrow> 'a res" where
  "ret v = Some (Inr v)"

definition throw :: "error \<Rightarrow> 'a res" where
  "throw e = Some (Inl e)"

fun bindR :: "'a res \<Rightarrow> ('a \<Rightarrow> 'b res) \<Rightarrow> 'b res" where
  "bindR None f = None"
| "bindR (Some (Inl e)) f = Some (Inl e)"
| "bindR (Some (Inr v)) f = f v"

text \<open>Truthiness, and the test \<open>isEmpty\<close> of the source.\<close>

fun truthy :: "jsv \<Rightarrow> bool" where
  "truthy Undefined = False"
| "truthy Null = False"
| "truthy (Bool b) = b"
| "truthy (Num n) = (n \<noteq> 0)"
| "truthy (Str s) = (s \<noteq> [])"
| "truthy _ = True"

fun isEmpty :: "jsv \<Rightarrow> bool" where
  "isEmpty (Str s) = (s = [])"
| "isEmpty Undefined = True"
| "isEmpty Null = True"
| "isEmpty _ = False"

text \<open>Decimal rendering of an array index, the property name of an element.\<close>

definition digit_char :: "nat \<Rightarrow> char" where
  "digit_char d = char_of (48 + d)"

fun nat_str :: "nat \<Rightarrow> string" where
  "nat_str n = (if n < 10 then [digit_char n] else nat_str (n div 10) @ [digit_char (n mod 10)])"

declare nat_str.simps [simp del]

text \<open>
  Own properties. \<open>own v\<close> lists the own enumerable properties of a value, as object
  spread and \<open>for..in\<close> see them: the entries of an object, the indexed elements of an
  array, the indexed characters of a string; other primitives and functions have none.
\<close>

fun indexed :: "nat \<Rightarrow> jsv list \<Rightarrow> (string \<times> jsv) list" where
  "indexed i [] = []"
| "indexed i (x # xs) = (nat_str i, x) # indexed (Suc i) xs"

fun own :: "jsv \<Rightarrow> (string \<times> jsv) list" where
  "own (Obj kvs) = kvs"
| "own (Arr xs) = indexed 0 xs"
| "own (Str s) = indexed 0 (map (\<lambda>c. Str [c]) s)"
| "own _ = []"

text \<open>\<open>lengthOf v\<close> is \<open>v.length\<close>.\<close>

fun lookup :: "(string \<times> jsv) list \<Rightarrow> string \<Rightarrow> jsv option" where
  "lookup [] k = None"
| "lookup ((k', v) # kvs) k = (if k' = k then Some v else lookup kvs k)"

fun lengthOf :: "jsv \<Rightarrow> jsv" where
  "lengthOf (Arr xs) = Num (int (length xs))"
| "lengthOf (Str s) = Num (int (length s))"
| "lengthOf (Obj kvs) = (case lookup kvs ''length'' of Some v \<Rightarrow> v | None \<Rightarrow> Undefined)"
| "lengthOf _ = Undefined"

text \<open>
  \<open>hasOwn v k\<close> is \<open>v.hasOwnProperty(k)\<close> and \<open>get v k\<close> is the property read \<open>v[k]\<close>
  on a value that is not \<open>undefined\<close> or \<open>null\<close> (methods of the prototypes are not
  modelled: no schema key of the compiler names one).
\<close>

definition hasOwn :: "jsv \<Rightarrow> string \<Rightarrow> bool" where
  "hasOwn v k = (lookup (own v) k \<noteq> None
     \<or> (k = ''length'' \<and> (case v of Arr _ \<Rightarrow> True | Str _ \<Rightarrow> True | _ \<Rightarrow> False)))"

definition get :: "jsv \<Rightarrow> string \<Rightarrow> jsv" where
  "get v k = (case lookup (own v) k of Some x \<Rightarrow> x
     | None \<Rightarrow> if k = ''length'' then lengthOf v else Undefined)"

text \<open>
  \<open>put kvs k v\<close> is the assignment \<open>o[k] = v\<close> on the entries of an object: an existing key
  keeps its place, a new key goes last. \<open>del\<close> removes a key (rest destructuring).
\<close>

fun put :: "(string \<times> jsv) list \<Rightarrow> string \<Rightarrow> jsv \<Rightarrow> (string \<times> jsv) list" where
  "put [] k v = [(k, v)]"
| "put ((k', v') # kvs) k v = (if k' = k then (k, v) # kvs else (k', v') # put kvs k v)"

definition del :: "(string \<times> jsv) list \<Rightarrow> string \<Rightarrow> (string \<times> jsv) list" where
  "del kvs k = filter (\<lambda>(k', _). k' \<noteq> k) kvs"

definition putAll :: "(string \<times> jsv) list \<Rightarrow> (string \<times> jsv) list \<Rightarrow> (string \<times> jsv) list" where
  "putAll kvs new = foldl (\<lambda>acc (k, v). put acc k v) kvs new"

text \<open>\<open>set_prop o k v\<close> is \<open>o[k] = v\<close> on an object value.\<close>

fun set_prop :: "jsv \<Rightarrow> string \<Rightarrow> jsv \<Rightarrow> jsv" where
  "set_prop (Obj kvs) k v = Obj (put kvs k v)"
| "set_prop x k v = x"


section \<open>Library functions used by the compiler\<close>

text \<open>
  \<open>reverseDeepMerge\<close> is imported from the form library (\<open>@ngx-formly/core\<close>); the
  compiler calls it with one source. For every property of the source, in order: a
  destination property that is \<open>undefined\<close>, \<open>null\<close> or the empty string receives a copy of
  the source's value; where both values are plain objects the merge goes on inside the
  destination's value; otherwise the destination keeps what it has.
\<close>

fun isPlainObject :: "jsv \<Rightarrow> bool" where
  "isPlainObject (Obj kvs) = True"
| "isPlainObject _ = False"

lemma lookup_size: "lookup kvs k = Some v \<Longrightarrow> size v < Suc (size_list (size_prod (\<lambda>_. 0) size) kvs)"
  by (induction kvs) (auto split: if_splits)

lemma lookup_in_set: "lookup kvs k = Some v \<Longrightarrow> (k, v) \<in> set kvs"
  by (induction kvs) (auto split: if_splits)

lemma entry_size: "(k, v) \<in> set kvs \<Longrightarrow> size v < Suc (size_list (size_prod (\<lambda>_. 0) size) kvs)"
  by (induction kvs) auto

lemma indexed_value: "(k, v) \<in> set (indexed i ys) \<Longrightarrow> v \<in> set ys"
  by (induction ys arbitrary: i) auto

lemma element_size: "v \<in> set xs \<Longrightarrow> size v < Suc (size_list size xs)"
  by (induction xs) auto

lemma own_plain_size: "(k, v) \<in> set (own s) \<Longrightarrow> isPlainObject v \<Longrightarrow> size v < size s"
proof (cases s)
  case (Obj kvs)
  assume "(k, v) \<in> set (own s)"
  with Obj show ?thesis using entry_size [of k v kvs] by simp
next
  case (Arr xs)
  assume "(k, v) \<in> set (own s)"
  with Arr have "v \<in> set xs" using indexed_value [of k v 0 xs] by simp
  with Arr show ?thesis using element_size [of v xs] by simp
next
  case (Str t)
  assume a: "(k, v) \<in> set (own s)" and p: "isPlainObject v"
  from a Str have "v \<in> set (map (\<lambda>c. Str [c]) t)"
    using indexed_value [of k v 0 "map (\<lambda>c. Str [c]) t"] by simp
  with p show ?thesis by auto
qed simp_all

function reverseDeepMerge :: "jsv \<Rightarrow> jsv \<Rightarrow> jsv" where
  "reverseDeepMerge dest src =
     foldl (\<lambda>d (k, v).
        if isEmpty (get d k) then set_prop d k v
        else if isPlainObject (get d k) \<and> isPlainObject v
          then set_prop d k (reverseDeepMerge (get d k) v)
        else d) dest (own src)"
  by pat_completeness auto
termination
  by (relation "measure (\<lambda>(d, s). size s)") (auto dest: own_plain_size)

declare reverseDeepMerge.simps [simp del]


section \<open>Resolving references and allOf\<close>

text \<open>
  \<open>splitHashSlash [] r\<close> is \<open>r.split('#/')\<close> and \<open>splitSlash [] p\<close> is \<open>p.split('/')\<close>; the
  first argument holds, reversed, the characters of the piece being read.
\<close>

fun splitHashSlash :: "string \<Rightarrow> string \<Rightarrow> string list" where
  "splitHashSlash cur [] = [rev cur]"
| "splitHashSlash cur [c] = [rev (c # cur)]"
| "splitHashSlash cur (c # d # s) =
     (if c = CHR ''#'' \<and> d = CHR ''/'' then rev cur # splitHashSlash [] s
      else splitHashSlash (c # cur) (d # s))"

fun splitSlash :: "string \<Rightarrow> string \<Rightarrow> string list" where
  "splitSlash cur [] = [rev cur]"
| "splitSlash cur (c # s) =
     (if c = CHR ''/'' then rev cur # splitSlash [] s else splitSlash (c # cur) s)"

text \<open>One step of the pointer walk: \<open>def && def.hasOwnProperty(path) ? def[path] : null\<close>.\<close>

definition pointerStep :: "jsv \<Rightarrow> string \<Rightarrow> jsv" where
  "pointerStep def path = (if truthy def \<and> hasOwn def path then get def path else Null)"

definition findDefinition :: "jsv \<Rightarrow> string \<Rightarrow> jsv" where
  "findDefinition root r =
     (case splitHashSlash [] r of
        _ # pointer # _ \<Rightarrow>
          if pointer = [] then Null else foldl pointerStep root (splitSlash [] pointer)
      | _ \<Rightarrow> Null)"

text \<open>The annotations that a referencing node keeps: title, description, default.\<close>

definition annotations :: "jsv \<Rightarrow> (string \<times> jsv) list" where
  "annotations schema =
     foldl (\<lambda>annotation p. if hasOwn schema p then put annotation p (get schema p) else annotation)
       [] [''title'', ''description'', ''default'']"

text \<open>
  The elements that array spread \<open>[...v]\<close> takes from a value; \<open>None\<close> where the value is
  not iterable and the spread throws a TypeError.
\<close>

fun iterate :: "jsv \<Rightarrow> jsv list option" where
  "iterate (Arr xs) = Some xs"
| "iterate (Str s) = Some (map (\<lambda>c. Str [c]) s)"
| "iterate _ = None"

text \<open>
  The comparisons \<open><\<close> and \<open>>\<close> of the bounds. The schema type gives every bound keyword
  a number; on other operands the model answers false.
\<close>

fun js_lt :: "jsv \<Rightarrow> jsv \<Rightarrow> bool" where
  "js_lt (Num a) (Num b) = (a < b)"
| "js_lt _ _ = False"

definition js_gt :: "jsv \<Rightarrow> jsv \<Rightarrow> bool" where
  "js_gt a b = js_lt b a"

definition maxProps :: "string list" where
  "maxProps = [''maxLength'', ''maximum'', ''exclusiveMaximum'', ''maxItems'', ''maxProperties'']"

definition minProps :: "string list" where
  "minProps = [''minLength'', ''minimum'', ''exclusiveMinimum'', ''minItems'', ''minProperties'']"

definition tightenMax :: "jsv \<Rightarrow> jsv \<Rightarrow> string \<Rightarrow> jsv" where
  "tightenMax schema base prop =
     (if \<not> isEmpty (get base prop) \<and> \<not> isEmpty (get schema prop)
      then set_prop base prop
             (if js_lt (get base prop) (get schema prop) then get base prop else get schema prop)
      else base)"

definition tightenMin :: "jsv \<Rightarrow> jsv \<Rightarrow> string \<Rightarrow> jsv" where
  "tightenMin schema base prop =
     (if \<not> isEmpty (get base prop) \<and> \<not> isEmpty (get schema prop)
      then set_prop base prop
             (if js_gt (get base prop) (get schema prop) then get base prop else get schema prop)
      else base)"

text \<open>
  The body of the \<open>reduce\<close> callback of \<open>resolveAllOf\<close>, after the member has been
  resolved: required lists concatenate, \<open>uniqueItems\<close> is taken over, bounds tighten, and
  the rest is merged.
\<close>

definition mergeRequired :: "jsv \<Rightarrow> jsv \<Rightarrow> jsv res" where
  "mergeRequired base schema =
     (if truthy (get base ''required'') \<and> truthy (get schema ''required'')
      then (case (iterate (get base ''required''), iterate (get schema ''required'')) of
              (Some xs, Some ys) \<Rightarrow> ret (set_prop base ''required'' (Arr (xs @ ys)))
            | _ \<Rightarrow> throw TypeError)
      else ret base)"

definition mergeAllOf :: "jsv \<Rightarrow> jsv \<Rightarrow> jsv res" where
  "mergeAllOf base schema =
     bindR (mergeRequired base schema) (\<lambda>base1.
       let base2 = (if truthy (get schema ''uniqueItems'')
                    then set_prop base1 ''uniqueItems'' (get schema ''uniqueItems'') else base1);
           base3 = foldl (tightenMax schema) base2 maxProps;
           base4 = foldl (tightenMin schema) base3 minProps
       in ret (reverseDeepMerge base4 schema))"

text \<open>
  \<open>resolveSchema\<close>, \<open>resolveDefinition\<close> and \<open>resolveAllOf\<close> call each other; the first
  argument is the fuel, the second the root document (\<open>options.schema\<close>). Reading a
  property of \<open>undefined\<close> or \<open>null\<close>, calling \<open>split\<close> on a reference that is not a string
  and calling \<open>reduce\<close> on an \<open>allOf\<close> that is not an array throw a TypeError.
\<close>

fun isNullish :: "jsv \<Rightarrow> bool" where
  "isNullish Undefined = True"
| "isNullish Null = True"
| "isNullish _ = False"

fun resolveSchema :: "nat \<Rightarrow> jsv \<Rightarrow> jsv \<Rightarrow> jsv res"
  and resolveDefinition :: "nat \<Rightarrow> jsv \<Rightarrow> jsv \<Rightarrow> jsv res"
  and resolveAllOf :: "nat \<Rightarrow> jsv \<Rightarrow> jsv \<Rightarrow> jsv res"
  and reduceAllOf :: "nat \<Rightarrow> jsv \<Rightarrow> jsv \<Rightarrow> jsv list \<Rightarrow> jsv res"
where
  "resolveSchema 0 root schema = None"
| "resolveSchema (Suc n) root schema =
     (if isNullish schema then throw TypeError
      else bindR (if truthy (get schema ''$ref'') then resolveDefinition n root schema
                  else ret schema)
             (\<lambda>schema1. if truthy (get schema1 ''allOf'') then resolveAllOf n root schema1
                         else ret schema1))"
| "resolveDefinition 0 root schema = None"
| "resolveDefinition (Suc n) root schema =
     (case get schema ''$ref'' of
        Str r \<Rightarrow>
          if hd (splitHashSlash [] r) \<noteq> [] then throw (RemoteRef r)
          else let definition = findDefinition root r
               in if \<not> truthy definition then throw (NoDefinition r)
                  else if truthy (get definition ''$ref'') then resolveDefinition n root definition
                  else ret (Obj (putAll (own definition) (annotations schema)))
      | _ \<Rightarrow> throw TypeError)"
| "resolveAllOf 0 root schema = None"
| "resolveAllOf (Suc n) root schema =
     (let allOf = get schema ''allOf''; baseSchema = Obj (del (own schema) ''allOf'')
      in if \<not> truthy (lengthOf allOf) then throw EmptyAllOf
         else (case allOf of Arr members \<Rightarrow> reduceAllOf n root baseSchema members
               | _ \<Rightarrow> throw TypeError))"
| "reduceAllOf 0 root base members = None"
| "reduceAllOf (Suc n) root base [] = ret base"
| "reduceAllOf (Suc n) root base (member # members) =
     bindR (resolveSchema n root member) (\<lambda>schema.
       bindR (mergeAllOf base schema) (\<lambda>base1. reduceAllOf n root base1 members))"

section \<open>The first statement of the field compiler\<close>

text \<open>
  A compilation step returns its value together with the warnings it has written to the
  console, in order.
\<close>

type_synonym 'a resW = "('a \<times> string list) res"

definition pureW :: "'a \<Rightarrow> 'a resW" where
  "pureW v = ret (v, [])"

definition liftW :: "'a res \<Rightarrow> 'a resW" where
  "liftW m = bindR m (\<lambda>v. ret (v, []))"

definition bindW :: "'a resW \<Rightarrow> ('a \<Rightarrow> 'b resW) \<Rightarrow> 'b resW" where
  "bindW m f = bindR m (\<lambda>(v, w). bindR (f v) (\<lambda>(v', w'). ret (v', w @ w')))"

definition warn :: "string \<Rightarrow> 'a \<Rightarrow> 'a resW" where
  "warn msg v = ret (v, [msg])"

text \<open>
  \<open>_toFieldConfig\<close> begins with \<open>schema = this.resolveSchema(schema, options)\<close>; what
  follows (\<open>body\<close>) works on the resolved schema and is not reached when the resolver
  throws.
\<close>

definition resolveFirst :: "(jsv \<Rightarrow> jsv res) \<Rightarrow> (jsv \<Rightarrow> 'a resW) \<Rightarrow> jsv \<Rightarrow> 'a resW" where
  "resolveFirst resolve body schema = bindW (liftW (resolve schema)) body"

section \<open>Numeric bounds under allOf: vocabulary\<close>

text \<open>
  A schema that carries only numeric-bound keys: an object whose keys are bound keywords
  and whose values are numbers.
\<close>

fun isNum :: "jsv \<Rightarrow> bool" where
  "isNum (Num n) = True"
| "isNum _ = False"

definition flatNums :: "(string \<times> jsv) list \<Rightarrow> bool" where
  "flatNums kvs = (\<forall>(k, v) \<in> set kvs. isNum v)"

definition boundsOnly :: "jsv \<Rightarrow> bool" where
  "boundsOnly s = (case s of
      Obj kvs \<Rightarrow> list_all (\<lambda>(k, v). k \<in> set (maxProps @ minProps) \<and> isNum v) kvs
    | _ \<Rightarrow> False)"

text \<open>
  The effective bound as the specification words it: where both operands carry a bound,
  minimum-family keywords take the maximum and maximum-family keywords the minimum;
  a bound carried by one operand only is kept.
\<close>

fun tighter :: "string \<Rightarrow> jsv \<Rightarrow> jsv \<Rightarrow> jsv" where
  "tighter k (Num a) (Num b) =
     (if k \<in> set minProps then Num (max a b) else if k \<in> set maxProps then Num (min a b) else Num a)"
| "tighter k Undefined y = y"
| "tighter k x y = x"

definition effectiveBound :: "jsv \<Rightarrow> jsv \<Rightarrow> string \<Rightarrow> jsv" where
  "effectiveBound A B k = tighter k (get A k) (get B k)"

text \<open>An accumulated base schema all of whose properties are numbers.\<close>

definition numsOrAbsent :: "jsv \<Rightarrow> bool" where
  "numsOrAbsent b = (isPlainObject b \<and> (\<forall>k. (\<exists>n. get b k = Num n) \<or> get b k = Undefined))"


section \<open>The field compiler\<close>

subsection \<open>Options\<close>

text \<open>
  What a compilation is given besides the root document: \<open>options.autoClear\<close>, the hook
  \<open>options.map\<close>, the descriptor registered for tests (\<open>this.testSpec\<close>), which texts
  the \<open>Function\<close> constructor accepts as a function body, and the title-case pipe of the
  framework (\<open>this.titleCasePipe.transform\<close>, on the strings it is given). The root document
  (\<open>options.schema\<close>) is read by \<open>resolveSchema\<close> only, which the compiler below takes
  as a parameter.
\<close>

record env =
  autoClearOpt :: jsv
  mapHook :: "(jsv \<Rightarrow> jsv \<Rightarrow> jsv) option"
  testSpec :: jsv
  parses :: "jsv \<Rightarrow> bool"
  titleCasePipe :: "string \<Rightarrow> string"

subsection \<open>Labels\<close>

text \<open>
  \<open>labelOf env s\<close> is \<open>this.titleCasePipe.transform(s.replace(/_/g, ' '))\<close>.
\<close>

definition labelOf :: "env \<Rightarrow> string \<Rightarrow> string" where
  "labelOf env s = titleCasePipe env (map (\<lambda>c. if c = CHR ''_'' then CHR '' '' else c) s)"

text \<open>
  The label from the key path, \<open>propKey[propKey.length - 1].replace(...)\<close>: with an empty
  key path the last element is \<open>undefined\<close> and the call throws.
\<close>

definition keyLabel :: "env \<Rightarrow> string list \<Rightarrow> jsv res" where
  "keyLabel env propKey =
     (if propKey = [] then throw TypeError else ret (Str (labelOf env (last propKey))))"

text \<open>The label from the title: \<open>schema.title ? transform(schema.title.replace(...)) : ''\<close>.\<close>

definition titleLabel :: "env \<Rightarrow> jsv \<Rightarrow> jsv res" where
  "titleLabel env schema =
     (if truthy (get schema ''title'')
      then (case get schema ''title'' of Str t \<Rightarrow> ret (Str (labelOf env t)) | _ \<Rightarrow> throw TypeError)
      else ret (Str []))"

subsection \<open>Assignments to a field\<close>

text \<open>
  \<open>setField f k v\<close> is \<open>f[k] = v\<close> on a descriptor that may come from outside the compiler
  (the test descriptor, the result of the hook): assigning to a property of a value that
  is not an object throws (arrays and functions are not extended in the model).
  \<open>setTO f k v\<close> is \<open>f.templateOptions[k] = v\<close>, and \<open>addValidator\<close> is the method of
  that name.
\<close>

definition setField :: "jsv \<Rightarrow> string \<Rightarrow> jsv \<Rightarrow> jsv res" where
  "setField f k v = (case f of Obj kvs \<Rightarrow> ret (Obj (put kvs k v)) | _ \<Rightarrow> throw TypeError)"

definition setTO :: "jsv \<Rightarrow> string \<Rightarrow> jsv \<Rightarrow> jsv res" where
  "setTO f k v =
     bindR (setField (get f ''templateOptions'') k v) (\<lambda>to. setField f ''templateOptions'' to)"

definition addValidator :: "jsv \<Rightarrow> string \<Rightarrow> jsv \<Rightarrow> jsv res" where
  "addValidator f name validator =
     (let vs = (if truthy (get f ''validators'') then get f ''validators'' else Obj [])
      in bindR (setField vs name validator) (\<lambda>vs1. setField f ''validators'' vs1))"

text \<open>\<open>pushGroup f x\<close> is \<open>f.fieldGroup.push(x)\<close>.\<close>

definition pushGroup :: "jsv \<Rightarrow> jsv \<Rightarrow> jsv res" where
  "pushGroup f x =
     (case get f ''fieldGroup'' of Arr xs \<Rightarrow> setField f ''fieldGroup'' (Arr (xs @ [x]))
      | _ \<Rightarrow> throw TypeError)"

text \<open>Strict equality with a string constant, \<open>Array.isArray\<close>, and \<open>indexOf(s) !== -1\<close>.\<close>

definition isStr :: "jsv \<Rightarrow> string \<Rightarrow> bool" where
  "isStr v s = (v = Str s)"

fun isArray :: "jsv \<Rightarrow> bool" where
  "isArray (Arr xs) = True"
| "isArray _ = False"

fun includesStr :: "jsv \<Rightarrow> string \<Rightarrow> bool" where
  "includesStr (Arr xs) s = (Str s \<in> set xs)"
| "includesStr _ s = False"

text \<open>\<open>guessType\<close>.\<close>

definition guessType :: "jsv \<Rightarrow> jsv" where
  "guessType schema =
     (let type = get schema ''type''
      in if \<not> truthy type \<and> truthy (get schema ''properties'') then Str ''object''
         else (case type of
            Arr [t] \<Rightarrow> t
          | Arr [t, u] \<Rightarrow> if includesStr type ''null'' then (if t = Str ''null'' then u else t) else type
          | _ \<Rightarrow> type))"

text \<open>
  The property name that a value turns into when it is used as a key (\<open>deps[dep]\<close>,
  \<open>items[length]\<close>).
\<close>

fun joinWith :: "string \<Rightarrow> string list \<Rightarrow> string" where
  "joinWith sep [] = []"
| "joinWith sep [x] = x"
| "joinWith sep (x # y # zs) = x @ sep @ joinWith sep (y # zs)"

fun toKey :: "jsv \<Rightarrow> string" where
  "toKey (Str s) = s"
| "toKey (Num n) = (if n < 0 then CHR ''-'' # nat_str (nat (- n)) else nat_str (nat n))"
| "toKey (Bool b) = (if b then ''true'' else ''false'')"
| "toKey Null = ''null''"
| "toKey Undefined = ''undefined''"
| "toKey (Arr xs) = joinWith '','' (map (\<lambda>x. if isNullish x then [] else toKey x) xs)"
| "toKey (Obj kvs) = ''[object Object]''"
| "toKey (Fun c env) = ''function''"

subsection \<open>Sequencing\<close>

definition chain :: "('a \<Rightarrow> 'a res) list \<Rightarrow> 'a \<Rightarrow> 'a res" where
  "chain steps f = foldl bindR (ret f) steps"

definition whenR :: "bool \<Rightarrow> ('a \<Rightarrow> 'a res) \<Rightarrow> 'a \<Rightarrow> 'a res" where
  "whenR c step f = (if c then step f else ret f)"

fun mapR :: "('a \<Rightarrow> 'b res) \<Rightarrow> 'a list \<Rightarrow> 'b list res" where
  "mapR f [] = ret []"
| "mapR f (x # xs) = bindR (f x) (\<lambda>y. bindR (mapR f xs) (\<lambda>ys. ret (y # ys)))"

fun mapW :: "('a \<Rightarrow> 'b resW) \<Rightarrow> 'a list \<Rightarrow> 'b list resW" where
  "mapW f [] = pureW []"
| "mapW f (x # xs) = bindW (f x) (\<lambda>y. bindW (mapW f xs) (\<lambda>ys. pureW (y # ys)))"

fun foldW :: "('b \<Rightarrow> 'a \<Rightarrow> 'b resW) \<Rightarrow> 'b \<Rightarrow> 'a list \<Rightarrow> 'b resW" where
  "foldW f acc [] = pureW acc"
| "foldW f acc (x # xs) = bindW (f acc x) (\<lambda>acc1. foldW f acc1 xs)"

subsection \<open>Enumerations\<close>

text \<open>
  \<open>isConst\<close> on a schema that is not \<open>undefined\<close> or \<open>null\<close>, and
  \<open>v.every(isConst)\<close>, which stops at the first element that is not a constant and
  throws on \<open>undefined\<close> or \<open>null\<close> elements and on a value that is not an array.
\<close>

definition isConst :: "jsv \<Rightarrow> bool" where
  "isConst schema = (hasOwn schema ''const''
     \<or> (truthy (get schema ''enum'') \<and> lengthOf (get schema ''enum'') = Num 1))"

fun everyConstList :: "jsv list \<Rightarrow> bool res" where
  "everyConstList [] = ret True"
| "everyConstList (x # xs) =
     (if isNullish x then throw TypeError
      else if isConst x then everyConstList xs else ret False)"

definition everyConst :: "jsv \<Rightarrow> bool res" where
  "everyConst v = (case v of Arr xs \<Rightarrow> everyConstList xs | _ \<Rightarrow> throw TypeError)"

text \<open>
  \<open>isEnum\<close>, as a truth value. A value that is not an object has none of the keywords.
\<close>

function isEnum :: "jsv \<Rightarrow> bool res" where
  "isEnum schema =
     (case schema of
        Obj kvs \<Rightarrow>
          if truthy (get schema ''enum'') then ret True
          else bindR (if truthy (get schema ''anyOf'') then everyConst (get schema ''anyOf'')
                      else ret False)
            (\<lambda>a. if a then ret True
              else bindR (if truthy (get schema ''oneOf'') then everyConst (get schema ''oneOf'')
                          else ret False)
                (\<lambda>b. if b then ret True
                  else (case lookup kvs ''items'' of
                          Some items \<Rightarrow>
                            if truthy (get schema ''uniqueItems'') \<and> truthy items \<and> \<not> isArray items
                            then isEnum items else ret False
                        | None \<Rightarrow> ret False)))
      | _ \<Rightarrow> ret False)"
  by pat_completeness auto
termination
  by (relation "measure size") (auto dest: lookup_size)

declare isEnum.simps [simp del]

text \<open>\<open>toEnumOptions\<close>, with its local function \<open>toEnum\<close>.\<close>

definition toEnum :: "jsv \<Rightarrow> jsv res" where
  "toEnum s =
     (if isNullish s then throw TypeError
      else bindR (if hasOwn s ''const'' then ret (get s ''const'')
                  else if isNullish (get s ''enum'') then throw TypeError
                  else ret (get (get s ''enum'') ''0''))
             (\<lambda>value. ret (Obj [(''value'', value),
                (''label'', if truthy (get s ''title'') then get s ''title'' else value)])))"

function toEnumOptions :: "jsv \<Rightarrow> jsv res" where
  "toEnumOptions schema =
     (case schema of
        Obj kvs \<Rightarrow>
          if truthy (get schema ''enum'')
          then (case get schema ''enum'' of
                  Arr xs \<Rightarrow> ret (Arr (map (\<lambda>value. Obj [(''value'', value), (''label'', value)]) xs))
                | _ \<Rightarrow> throw TypeError)
          else if truthy (get schema ''anyOf'')
          then (case get schema ''anyOf'' of
                  Arr xs \<Rightarrow> bindR (mapR toEnum xs) (\<lambda>ys. ret (Arr ys))
                | _ \<Rightarrow> throw TypeError)
          else if truthy (get schema ''oneOf'')
          then (case get schema ''oneOf'' of
                  Arr xs \<Rightarrow> bindR (mapR toEnum xs) (\<lambda>ys. ret (Arr ys))
                | _ \<Rightarrow> throw TypeError)
          else (case lookup kvs ''items'' of
                  Some items \<Rightarrow> toEnumOptions items
                | None \<Rightarrow> throw TypeError)
      | _ \<Rightarrow> throw TypeError)"
  by pat_completeness auto
termination
  by (relation "measure size") (auto dest: lookup_size)

declare toEnumOptions.simps [simp del]

subsection \<open>The cases of the switch on the field type\<close>

text \<open>
  Every case takes the options, the resolved schema, the key path and the field built so
  far. The
  functions stored in the field are closures over the schema value they read.
\<close>

definition caseNull :: "jsv \<Rightarrow> jsv res" where
  "caseNull f = addValidator f ''null'' (Fun VNull [])"

definition caseBoolean :: "env \<Rightarrow> jsv \<Rightarrow> string list \<Rightarrow> jsv \<Rightarrow> jsv res" where
  "caseBoolean env schema propKey = chain [
     (\<lambda>f. bindR (keyLabel env propKey) (setTO f ''label'')),
     (\<lambda>f. setTO f ''description'' (get schema ''description''))]"

definition caseNumber :: "env \<Rightarrow> jsv \<Rightarrow> string list \<Rightarrow> jsv \<Rightarrow> jsv res" where
  "caseNumber env schema propKey = chain [
     (\<lambda>f. bindR (keyLabel env propKey) (setTO f ''label'')),
     (\<lambda>f. setField f ''parsers'' (Arr [Fun ParseNumber []])),
     whenR (hasOwn schema ''minimum'') (\<lambda>f. setTO f ''min'' (get schema ''minimum'')),
     whenR (hasOwn schema ''maximum'') (\<lambda>f. setTO f ''max'' (get schema ''maximum'')),
     whenR (hasOwn schema ''exclusiveMinimum'') (chain [
       (\<lambda>f. setTO f ''exclusiveMinimum'' (get schema ''exclusiveMinimum'')),
       (\<lambda>f. addValidator f ''exclusiveMinimum''
               (Fun VExclusiveMinimum [get schema ''exclusiveMinimum'']))]),
     whenR (hasOwn schema ''exclusiveMaximum'') (chain [
       (\<lambda>f. setTO f ''exclusiveMaximum'' (get schema ''exclusiveMaximum'')),
       (\<lambda>f. addValidator f ''exclusiveMaximum''
               (Fun VExclusiveMaximum [get schema ''exclusiveMaximum'']))]),
     whenR (hasOwn schema ''multipleOf'') (chain [
       (\<lambda>f. setTO f ''step'' (get schema ''multipleOf'')),
       (\<lambda>f. addValidator f ''multipleOf'' (Fun VMultipleOf [get schema ''multipleOf'']))])]"

definition caseString :: "env \<Rightarrow> jsv \<Rightarrow> string list \<Rightarrow> jsv \<Rightarrow> jsv res" where
  "caseString env schema propKey = chain [
     whenR (isArray (get schema ''type'') \<and> includesStr (get schema ''type'') ''null'')
       (\<lambda>f. setField f ''parsers'' (Arr [Fun ParseNullable []])),
     whenR (hasOwn schema ''minLength'') (\<lambda>f. setTO f ''minLength'' (get schema ''minLength'')),
     whenR (hasOwn schema ''maxLength'') (\<lambda>f. setTO f ''maxLength'' (get schema ''maxLength'')),
     whenR (hasOwn schema ''pattern'') (\<lambda>f. setTO f ''pattern'' (get schema ''pattern'')),
     (\<lambda>f. if propKey = [] then throw TypeError
           else if last propKey \<noteq> ''-'' then setTO f ''label'' (Str (labelOf env (last propKey)))
           else setTO f ''label'' (Str []))]"

subsection \<open>Arrays\<close>

text \<open>
  The array case. \<open>resolve\<close> is \<open>resolveSchema\<close> with the options of the call. The case
  assigns the resolved item schema to \<open>schema.items\<close>, so it returns the schema as well as
  the field. The property \<open>fieldArray\<close> is defined with a getter; the field holds the
  closure, which captures what the getter reads: \<open>schema.items\<close>,
  \<open>schema.additionalItems\<close>, the key path and \<open>options.autoClear\<close>.
\<close>

definition arraySteps :: "env \<Rightarrow> jsv \<Rightarrow> string list \<Rightarrow> jsv \<Rightarrow> jsv res" where
  "arraySteps env schema propKey = chain [
     (\<lambda>f. setField f ''fieldGroup'' (Arr [])),
     (\<lambda>f. bindR (keyLabel env propKey) (setTO f ''label'')),
     whenR (hasOwn schema ''minItems'') (chain [
       (\<lambda>f. setTO f ''minItems'' (get schema ''minItems'')),
       (\<lambda>f. addValidator f ''minItems'' (Fun VMinItems [get schema ''minItems'']))]),
     whenR (hasOwn schema ''maxItems'') (chain [
       (\<lambda>f. setTO f ''maxItems'' (get schema ''maxItems'')),
       (\<lambda>f. addValidator f ''maxItems'' (Fun VMaxItems [get schema ''maxItems'']))]),
     whenR (hasOwn schema ''uniqueItems'') (chain [
       (\<lambda>f. setTO f ''uniqueItems'' (get schema ''uniqueItems'')),
       (\<lambda>f. addValidator f ''uniqueItems'' (Fun VUniqueItems [get schema ''uniqueItems'']))])]"

definition resolveItems :: "(jsv \<Rightarrow> jsv res) \<Rightarrow> jsv \<Rightarrow> jsv res" where
  "resolveItems resolve schema =
     (if truthy (get schema ''items'') \<and> \<not> isArray (get schema ''items'')
      then bindR (resolve (get schema ''items'')) (\<lambda>items. ret (set_prop schema ''items'' items))
      else ret schema)"

definition defineFieldArray :: "env \<Rightarrow> jsv \<Rightarrow> string list \<Rightarrow> jsv \<Rightarrow> jsv res" where
  "defineFieldArray env schema propKey f =
     bindR (isEnum schema) (\<lambda>e.
       if \<not> e
       then setField f ''fieldArray''
              (Fun FieldArrayGetter [get schema ''items'', get schema ''additionalItems'',
                                     Arr (map Str propKey), autoClearOpt env])
       else ret f)"

definition caseArray ::
  "(jsv \<Rightarrow> jsv res) \<Rightarrow> env \<Rightarrow> jsv \<Rightarrow> string list \<Rightarrow> jsv \<Rightarrow> (jsv \<times> jsv) res" where
  "caseArray resolve env schema propKey f =
     bindR (arraySteps env schema propKey f) (\<lambda>f1.
     bindR (resolveItems resolve schema) (\<lambda>schema1.
     bindR (defineFieldArray env schema1 propKey f1) (\<lambda>f2. ret (f2, schema1))))"

text \<open>
  The recursive call. \<open>rec\<close> stands for \<open>_toFieldConfig\<close> called from inside the body.
  The array case assigns to \<open>schema.items\<close>, and the schema it assigns to may be a node
  of the root document, so what a call returns depends on the calls made before it and
  not on its arguments alone. The first argument of \<open>rec\<close> therefore names the place of
  the call in the body (the property, the union branch, the getter), and everything below is
  stated for an arbitrary \<open>rec\<close>.
\<close>

type_synonym site = "string list"

text \<open>
  Calling the getter of \<open>fieldArray\<close> on the field \<open>this\<close>.
\<close>

definition itemPropKey :: "string list \<Rightarrow> string list" where
  "itemPropKey propKey =
     (if propKey = [] \<or> last propKey \<noteq> ''-'' then propKey @ [''-''] else propKey)"

fun callGetter ::
  "(site \<Rightarrow> env \<Rightarrow> jsv \<Rightarrow> string list \<Rightarrow> jsv resW) \<Rightarrow> site \<Rightarrow> env \<Rightarrow> jsv list \<Rightarrow> jsv \<Rightarrow> jsv resW" where
  "callGetter rec site env [items, additionalItems, Arr propKey, ac] this =
     (let options = env\<lparr>autoClearOpt := ac\<rparr>
      in if \<not> isArray items
         then rec site options items (itemPropKey (map toKey propKey))
         else let length = (if truthy (get this ''fieldGroup'')
                            then lengthOf (get this ''fieldGroup'') else Num 0);
                  itemSchema = (if truthy (get items (toKey length))
                                then get items (toKey length)
                                else additionalItems)
              in if truthy itemSchema then rec site options itemSchema (map toKey propKey)
                 else pureW (Obj []))"
| "callGetter rec site env args this = throw TypeError"

text \<open>
  Object spread of a field, \<open>{...f}\<close>: the own properties, with the getter of
  \<open>fieldArray\<close> called for its value.
\<close>

definition spreadField ::
  "(site \<Rightarrow> env \<Rightarrow> jsv \<Rightarrow> string list \<Rightarrow> jsv resW) \<Rightarrow> site \<Rightarrow> env \<Rightarrow> jsv \<Rightarrow> (string \<times> jsv) list resW" where
  "spreadField rec site env f =
     mapW (\<lambda>(k, v). case v of
              Fun FieldArrayGetter args \<Rightarrow>
                bindW (callGetter rec (site @ [''fieldArray'']) env args f) (\<lambda>x. pureW (k, x))
            | _ \<Rightarrow> pureW (k, v)) (own f)"

subsection \<open>Unions\<close>

text \<open>\<open>resolveMultiSchema\<close>: the selector and the branches, each with its visibility closure.\<close>

definition selectorOption :: "jsv \<times> nat \<Rightarrow> jsv res" where
  "selectorOption = (\<lambda>(s, i). if isNullish s then throw TypeError
       else ret (Obj [(''label'', get s ''title''), (''value'', Num (int i))]))"

definition resolveMultiSchema ::
  "(site \<Rightarrow> env \<Rightarrow> jsv \<Rightarrow> string list \<Rightarrow> jsv resW) \<Rightarrow> env \<Rightarrow> string \<Rightarrow> jsv \<Rightarrow> string list \<Rightarrow> jsv resW" where
  "resolveMultiSchema rec env mode schemas propKey =
     (case schemas of
        Arr xs \<Rightarrow>
          bindW (liftW (mapR selectorOption (zip xs [0..<length xs]))) (\<lambda>opts.
          bindW (mapW (\<lambda>(s, i).
                   bindW (rec [mode, nat_str i] (env\<lparr>autoClearOpt := Bool True\<rparr>) s propKey) (\<lambda>f.
                   bindW (spreadField rec [mode, nat_str i] env f) (\<lambda>kvs.
                     pureW (Obj (put kvs ''hideExpression'' (Fun HideUnion [Str mode, Num (int i)]))))))
                 (zip xs [0..<length xs])) (\<lambda>branches.
            pureW (Obj [(''type'', Str ''union''),
              (''fieldGroup'', Arr [
                 Obj [(''type'', Str ''enum''),
                      (''templateOptions'', Obj [(''multiple'', Bool (mode = ''anyOf'')),
                                                (''options'', Arr opts)])],
                 Obj [(''fieldGroup'', Arr branches)]])])))
      | _ \<Rightarrow> throw TypeError)"

subsection \<open>Objects\<close>

text \<open>
  The two dictionaries of \<open>resolveDependencies\<close> are plain objects, read and written
  under names that come from the schema. A name that is not an own entry is looked up in
  the prototype: a plain object inherits the members of \<open>Object.prototype\<close>, which are
  functions (the member \<open>__proto__\<close> is the prototype itself); none of the schema keywords
  is an own property of such a member. Assigning under the name \<open>__proto__\<close> replaces the
  prototype when the value is an object or \<open>null\<close> and does nothing otherwise.
\<close>

definition objectPrototype :: "string list" where
  "objectPrototype = [''constructor'', ''hasOwnProperty'', ''isPrototypeOf'',
     ''propertyIsEnumerable'', ''toLocaleString'', ''toString'', ''valueOf'',
     ''__defineGetter__'', ''__defineSetter__'', ''__lookupGetter__'', ''__lookupSetter__'',
     ''__proto__'']"

definition inheritedMember :: "string \<Rightarrow> jsv" where
  "inheritedMember k = (if k \<in> set objectPrototype then Fun Inherited [Str k] else Undefined)"

datatype prototype = ObjectPrototype | NullPrototype | ObjectAsPrototype "(string \<times> jsv) list"

fun inherited :: "prototype \<Rightarrow> string \<Rightarrow> jsv" where
  "inherited ObjectPrototype k = inheritedMember k"
| "inherited NullPrototype k = Undefined"
| "inherited (ObjectAsPrototype d) k =
     (case lookup d k of Some v \<Rightarrow> v
      | None \<Rightarrow> if k = ''__proto__'' then Obj d else inheritedMember k)"

definition dictGet :: "(string \<times> jsv) list \<Rightarrow> prototype \<Rightarrow> string \<Rightarrow> jsv" where
  "dictGet entries p k = (case lookup entries k of Some v \<Rightarrow> v | None \<Rightarrow> inherited p k)"

fun foldR :: "('b \<Rightarrow> 'a \<Rightarrow> 'b res) \<Rightarrow> 'b \<Rightarrow> 'a list \<Rightarrow> 'b res" where
  "foldR f acc [] = ret acc"
| "foldR f acc (x # xs) = bindR (f acc x) (\<lambda>acc1. foldR f acc1 xs)"

text \<open>
  \<open>resolveDependencies\<close>: the property dependencies, the schema dependencies, and the
  prototype of the latter. \<open>deps[dep].push(prop)\<close> throws when \<open>deps[dep]\<close> is an inherited
  member.
\<close>

definition addDep :: "string \<Rightarrow> (string \<times> jsv) list \<Rightarrow> jsv \<Rightarrow> (string \<times> jsv) list res" where
  "addDep prop deps dep =
     (let cur = dictGet deps ObjectPrototype (toKey dep)
      in if \<not> truthy cur then ret (put deps (toKey dep) (Arr [Str prop]))
         else (case cur of
                 Arr ps \<Rightarrow> ret (put deps (toKey dep) (Arr (ps @ [Str prop])))
               | _ \<Rightarrow> throw TypeError))"

definition dependencyStep ::
  "(string \<times> jsv) list \<times> (string \<times> jsv) list \<times> prototype \<Rightarrow> string \<times> jsv
     \<Rightarrow> ((string \<times> jsv) list \<times> (string \<times> jsv) list \<times> prototype) res" where
  "dependencyStep = (\<lambda>(deps, schemaDeps, p) (prop, dependency).
     case dependency of
       Arr ds \<Rightarrow> bindR (foldR (addDep prop) deps ds) (\<lambda>deps1. ret (deps1, schemaDeps, p))
     | _ \<Rightarrow> if prop = ''__proto__''
            then ret (deps, schemaDeps,
                      case dependency of Obj d \<Rightarrow> ObjectAsPrototype d | Null \<Rightarrow> NullPrototype
                      | _ \<Rightarrow> p)
            else ret (deps, put schemaDeps prop dependency, p))"

definition resolveDependencies ::
  "jsv \<Rightarrow> ((string \<times> jsv) list \<times> (string \<times> jsv) list \<times> prototype) res" where
  "resolveDependencies schema =
     foldR dependencyStep ([], [], ObjectPrototype)
       (if truthy (get schema ''dependencies'') then own (get schema ''dependencies'') else [])"

text \<open>
  The test of the dependency's \<open>oneOf\<close>:
  \<open>every(o => o.properties && o.properties[key] && isConst(o.properties[key]))\<close>. The read
  \<open>o.properties[key]\<close> finds inherited members too (\<open>o.properties\<close> is an object of the
  document).
\<close>

definition getNamed :: "jsv \<Rightarrow> string \<Rightarrow> jsv" where
  "getNamed v k = (if hasOwn v k then get v k else if isNullish v then Undefined else inheritedMember k)"

fun everyKeyConst :: "string \<Rightarrow> jsv list \<Rightarrow> bool res" where
  "everyKeyConst key [] = ret True"
| "everyKeyConst key (x # xs) =
     (if isNullish x then throw TypeError
      else if truthy (get x ''properties'') \<and> truthy (getNamed (get x ''properties'') key)
              \<and> isConst (getNamed (get x ''properties'') key)
      then everyKeyConst key xs else ret False)"

definition constBranches :: "string \<Rightarrow> jsv \<Rightarrow> bool res" where
  "constBranches key oneOfSchema =
     (if \<not> truthy oneOfSchema then ret False
      else (case oneOfSchema of Arr xs \<Rightarrow> everyKeyConst key xs | _ \<Rightarrow> throw TypeError))"

text \<open>The fields of the schema dependency of a property.\<close>

definition dependencyFields ::
  "(site \<Rightarrow> env \<Rightarrow> jsv \<Rightarrow> string list \<Rightarrow> jsv resW) \<Rightarrow> env \<Rightarrow> string \<Rightarrow> jsv \<Rightarrow> string list \<Rightarrow> jsv list resW" where
  "dependencyFields rec env key dep newPropKey =
     bindW (liftW (constBranches key (get dep ''oneOf''))) (\<lambda>c.
       if c
       then mapW (\<lambda>(oneOfSchemaItem, i).
               let constSchema = getNamed (get oneOfSchemaItem ''properties'') key;
                   properties = Obj (del (own (get oneOfSchemaItem ''properties'')) key);
                   site = [''dependencies'', key, ''oneOf'', nat_str i]
               in bindW (rec site (env\<lparr>autoClearOpt := Bool True\<rparr>)
                           (Obj (put (own oneOfSchemaItem) ''properties'' properties)) newPropKey) (\<lambda>f.
                  bindW (spreadField rec site env f) (\<lambda>kvs.
                    pureW (Obj (put kvs ''hideExpression'' (Fun HideConstNeq [Str key, constSchema]))))))
             (case get dep ''oneOf'' of Arr xs \<Rightarrow> zip xs [0..<length xs] | _ \<Rightarrow> [])
       else bindW (rec [''dependencies'', key] env dep newPropKey) (\<lambda>f.
            bindW (spreadField rec [''dependencies'', key] env f) (\<lambda>kvs.
              pureW [Obj (put kvs ''hideExpression'' (Fun HideIfEmpty [Str key]))])))"

text \<open>The body of the loop over the properties of an object schema.\<close>

definition decorateProperty :: "jsv \<Rightarrow> string \<Rightarrow> jsv \<Rightarrow> jsv \<Rightarrow> jsv res" where
  "decorateProperty schema key deps = chain [
     (\<lambda>f. setField f ''key'' (Str key)),
     whenR (isArray (get schema ''required'') \<and> includesStr (get schema ''required'') key)
       (\<lambda>f. setTO f ''required'' (Bool True)),
     (\<lambda>f. if truthy (get f ''templateOptions'')
              \<and> \<not> truthy (get (get f ''templateOptions'') ''required'') \<and> truthy deps
           then setField f ''expressionProperties''
                  (Obj [(''templateOptions.required'', Fun RequiredIfAny [deps])])
           else ret f)]"

fun pushAll :: "jsv \<Rightarrow> jsv list \<Rightarrow> jsv res" where
  "pushAll field [] = ret field"
| "pushAll field (x # xs) = bindR (pushGroup field x) (\<lambda>field1. pushAll field1 xs)"

definition propertyStep ::
  "(site \<Rightarrow> env \<Rightarrow> jsv \<Rightarrow> string list \<Rightarrow> jsv resW) \<Rightarrow> env \<Rightarrow> jsv \<Rightarrow> string list
     \<Rightarrow> (string \<times> jsv) list \<times> (string \<times> jsv) list \<times> prototype \<Rightarrow> jsv \<Rightarrow> string \<times> jsv \<Rightarrow> jsv resW" where
  "propertyStep rec env schema propKey = (\<lambda>(propDeps, schemaDeps, p) field (key, sub).
     let newPropKey = propKey @ [key];
         deps = dictGet propDeps ObjectPrototype key;
         sdep = dictGet schemaDeps p key
     in bindW (rec [''properties'', key] env sub newPropKey) (\<lambda>f.
        bindW (liftW (decorateProperty schema key deps f)) (\<lambda>f1.
        bindW (liftW (pushGroup field f1)) (\<lambda>field1.
          if truthy sdep
          then bindW (dependencyFields rec env key sdep newPropKey) (\<lambda>fs.
                 liftW (pushAll field1 fs))
          else pureW field1))))"

text \<open>Appending the union of \<open>schema.oneOf\<close> or \<open>schema.anyOf\<close>, when the schema has one.\<close>

definition addUnion ::
  "(site \<Rightarrow> env \<Rightarrow> jsv \<Rightarrow> string list \<Rightarrow> jsv resW) \<Rightarrow> env \<Rightarrow> string \<Rightarrow> jsv \<Rightarrow> string list \<Rightarrow> jsv \<Rightarrow> jsv resW" where
  "addUnion rec env mode schema propKey field =
     (if truthy (get schema mode)
      then bindW (resolveMultiSchema rec env mode (get schema mode) propKey)
             (\<lambda>u. liftW (pushGroup field u))
      else pureW field)"

definition objectChildren ::
  "(site \<Rightarrow> env \<Rightarrow> jsv \<Rightarrow> string list \<Rightarrow> jsv resW) \<Rightarrow> env \<Rightarrow> jsv \<Rightarrow> string list
     \<Rightarrow> (string \<times> jsv) list \<times> (string \<times> jsv) list \<times> prototype \<Rightarrow> jsv \<Rightarrow> jsv resW" where
  "objectChildren rec env schema propKey dependencies field =
     bindW (foldW (propertyStep rec env schema propKey dependencies) field
              (if truthy (get schema ''properties'') then own (get schema ''properties'')
               else [])) (\<lambda>field1.
     bindW (addUnion rec env ''oneOf'' schema propKey field1)
           (addUnion rec env ''anyOf'' schema propKey))"

definition caseObject ::
  "(site \<Rightarrow> env \<Rightarrow> jsv \<Rightarrow> string list \<Rightarrow> jsv resW) \<Rightarrow> env \<Rightarrow> jsv \<Rightarrow> string list \<Rightarrow> jsv \<Rightarrow> jsv resW" where
  "caseObject rec env schema propKey f =
     bindW (liftW (setField f ''fieldGroup'' (Arr []))) (\<lambda>field.
     bindW (liftW (resolveDependencies schema)) (\<lambda>dependencies.
       if get schema ''properties'' = Undefined \<and> \<not> hasOwn schema ''oneOf''
       then (if testSpec env \<noteq> Undefined then pureW (testSpec env)
             else liftW (setField field ''type'' (Str ''rawobject'')))
       else objectChildren rec env schema propKey dependencies field))"

subsection \<open>After the switch\<close>

definition constPhase :: "jsv \<Rightarrow> jsv \<Rightarrow> jsv res" where
  "constPhase schema =
     whenR (hasOwn schema ''const'') (chain [
       (\<lambda>f. setTO f ''const'' (get schema ''const'')),
       (\<lambda>f. addValidator f ''const'' (Fun VConst [get schema ''const''])),
       (\<lambda>f. if \<not> truthy (get f ''type'') then setField f ''defaultValue'' (get schema ''const'')
             else ret f)])"

text \<open>
  The vendor extension \<open>x-schema-form\<close>. The \<open>try\<close> block holds the construction of the
  function and the assignment to \<open>field.hideExpression\<close>; when either throws, the
  \<open>catch\<close> block writes the warning and the field stays as it was.
\<close>

definition conditionWarning :: string where
  "conditionWarning = ''Something went wrong with applying condition evaluation to form''"

definition hidePhase :: "env \<Rightarrow> jsv \<Rightarrow> jsv \<Rightarrow> jsv resW" where
  "hidePhase env condition f =
     (if parses env (get condition ''hideExpression'')
      then (case setField f ''hideExpression'' (Fun HideDyn [get condition ''hideExpression'']) of
              Some (Inr f1) \<Rightarrow> pureW f1
            | _ \<Rightarrow> warn conditionWarning f)
      else warn conditionWarning f)"

definition conditionPhase :: "env \<Rightarrow> jsv \<Rightarrow> jsv \<Rightarrow> jsv resW" where
  "conditionPhase env condition f =
     (if isNullish condition then throw TypeError
      else bindW (if hasOwn condition ''hideExpression'' then hidePhase env condition f else pureW f)
             (\<lambda>f1. if hasOwn condition ''disableAutoClear''
                    then liftW (setField f1 ''autoClear'' (Bool False)) else pureW f1))"

definition xFormPhase :: "env \<Rightarrow> jsv \<Rightarrow> jsv \<Rightarrow> jsv resW" where
  "xFormPhase env schema f =
     (if hasOwn schema ''x-schema-form''
      then (let x = get schema ''x-schema-form''
            in if isNullish x then throw TypeError
               else bindW (liftW (chain [
                       whenR (hasOwn x ''type'') (\<lambda>f. setField f ''type'' (get x ''type'')),
                       (\<lambda>f. if hasOwn x ''wrappers'' then setField f ''wrappers'' (get x ''wrappers'')
                             else if get f ''type'' = Str ''object''
                             then setField f ''wrappers'' (Arr [Str ''panel''])
                             else ret f)] f))
                    (\<lambda>f1. if hasOwn x ''condition'' then conditionPhase env (get x ''condition'') f1
                           else pureW f1))
      else pureW f)"

definition enumPhase :: "jsv \<Rightarrow> jsv \<Rightarrow> jsv res" where
  "enumPhase schema f =
     bindR (isEnum schema) (\<lambda>e.
       if e then chain [
           (\<lambda>f. setTO f ''multiple'' (Bool (get f ''type'' = Str ''array''))),
           (\<lambda>f. setField f ''type'' (Str ''enum'')),
           (\<lambda>f. bindR (toEnumOptions schema) (setTO f ''options''))] f
       else ret f)"

text \<open>
  \<open>reverseDeepMerge(schema.widget.formlyConfig, field)\<close> reads every own property of the
  field, which calls the getter of \<open>fieldArray\<close>.
\<close>

definition widgetPhase ::
  "(site \<Rightarrow> env \<Rightarrow> jsv \<Rightarrow> string list \<Rightarrow> jsv resW) \<Rightarrow> env \<Rightarrow> jsv \<Rightarrow> jsv \<Rightarrow> jsv resW" where
  "widgetPhase rec env schema f =
     (if truthy (get schema ''widget'') \<and> truthy (get (get schema ''widget'') ''formlyConfig'')
      then bindW (spreadField rec [''widget''] env f) (\<lambda>kvs.
             pureW (reverseDeepMerge (get (get schema ''widget'') ''formlyConfig'') (Obj kvs)))
      else pureW f)"

definition mapPhase :: "env \<Rightarrow> jsv \<Rightarrow> jsv \<Rightarrow> jsv" where
  "mapPhase env schema f = (case mapHook env of Some m \<Rightarrow> m f schema | None \<Rightarrow> f)"

subsection \<open>The recursive driver\<close>

text \<open>
  The field literal that \<open>_toFieldConfig\<close> starts from. Reading \<open>schema.type\<close> throws when
  the schema is \<open>undefined\<close> or \<open>null\<close>.
\<close>

definition baseField :: "env \<Rightarrow> jsv \<Rightarrow> jsv res" where
  "baseField env schema =
     (if isNullish schema then throw TypeError
      else bindR (titleLabel env schema) (\<lambda>label. ret (Obj [
       (''type'', guessType schema),
       (''defaultValue'', get schema ''default''),
       (''templateOptions'', Obj [(''label'', label),
                                 (''readonly'', get schema ''readOnly''),
                                 (''description'', get schema ''description'')]),
       (''autoClear'', Bool (autoClearOpt env \<noteq> Bool False))])))"

text \<open>The switch on \<open>field.type\<close>; it returns the field and the schema.\<close>

definition typeSwitch ::
  "(site \<Rightarrow> env \<Rightarrow> jsv \<Rightarrow> string list \<Rightarrow> jsv resW) \<Rightarrow> (jsv \<Rightarrow> jsv res) \<Rightarrow> env \<Rightarrow> jsv \<Rightarrow> string list
     \<Rightarrow> jsv \<Rightarrow> (jsv \<times> jsv) resW" where
  "typeSwitch rec resolve env schema propKey f =
     (let t = get f ''type''; keep = (\<lambda>m. bindW (liftW m) (\<lambda>f1. pureW (f1, schema)))
      in if t = Str ''null'' then keep (caseNull f)
         else if t = Str ''boolean'' then keep (caseBoolean env schema propKey f)
         else if t = Str ''number'' \<or> t = Str ''integer'' then keep (caseNumber env schema propKey f)
         else if t = Str ''string'' then keep (caseString env schema propKey f)
         else if t = Str ''object''
           then bindW (caseObject rec env schema propKey f) (\<lambda>f1. pureW (f1, schema))
         else if t = Str ''array'' then liftW (caseArray resolve env schema propKey f)
         else pureW (f, schema))"

text \<open>
  The body of \<open>_toFieldConfig\<close> after the schema has been resolved, with the recursive
  call as a parameter.
\<close>

definition compileBody ::
  "(site \<Rightarrow> env \<Rightarrow> jsv \<Rightarrow> string list \<Rightarrow> jsv resW) \<Rightarrow> (jsv \<Rightarrow> jsv res) \<Rightarrow> env \<Rightarrow> jsv \<Rightarrow> string list
     \<Rightarrow> jsv resW" where
  "compileBody rec resolve env schema propKey =
     bindW (liftW (baseField env schema)) (\<lambda>field.
     bindW (typeSwitch rec resolve env schema propKey field) (\<lambda>(field1, schema1).
     bindW (liftW (constPhase schema1 field1)) (\<lambda>field2.
     bindW (xFormPhase env schema1 field2) (\<lambda>field3.
     bindW (liftW (enumPhase schema1 field3)) (\<lambda>field4.
     bindW (widgetPhase rec env schema1 field4) (\<lambda>field5.
       pureW (mapPhase env schema1 field5)))))))"

text \<open>
  \<open>_toFieldConfig\<close>: the schema is resolved first, then the body runs on the resolved
  schema. \<open>toFieldConfig\<close> calls it with the schema as the root document and the empty key
  path; \<open>resolve\<close> is then \<open>resolveSchema n schema\<close> for the document as it is when the
  call is made.
\<close>

definition toFieldConfigNode ::
  "(site \<Rightarrow> env \<Rightarrow> jsv \<Rightarrow> string list \<Rightarrow> jsv resW) \<Rightarrow> (jsv \<Rightarrow> jsv res) \<Rightarrow> env \<Rightarrow> jsv \<Rightarrow> string list
     \<Rightarrow> jsv resW" where
  "toFieldConfigNode rec resolve env schema propKey =
     resolveFirst resolve (\<lambda>schema1. compileBody rec resolve env schema1 propKey) schema"

section \<open>Calling what the compiler stored in a field\<close>

subsection \<open>Validators\<close>

text \<open>
  A validator receives the control and reads its value. Strict equality compares
  primitive values; an object or array of the schema is never the object that the control
  holds. The comparisons follow \<open>js_lt\<close>; the remainder is taken on numbers. The test of
  unique items compares the JSON texts of the elements, which differ exactly when the
  elements (JSON values) differ; it calls \<open>map\<close>, which only an array has.
\<close>

fun strictEq :: "jsv \<Rightarrow> jsv \<Rightarrow> bool" where
  "strictEq (Arr xs) b = False"
| "strictEq (Obj kvs) b = False"
| "strictEq (Fun c e) b = False"
| "strictEq a b = (a = b)"

fun js_ge :: "jsv \<Rightarrow> jsv \<Rightarrow> bool" where
  "js_ge (Num a) (Num b) = (a \<ge> b)"
| "js_ge _ _ = False"

fun js_le :: "jsv \<Rightarrow> jsv \<Rightarrow> bool" where
  "js_le (Num a) (Num b) = (a \<le> b)"
| "js_le _ _ = False"

fun remainderIsZero :: "jsv \<Rightarrow> jsv \<Rightarrow> bool" where
  "remainderIsZero (Num a) (Num b) = (b \<noteq> 0 \<and> b dvd a)"
| "remainderIsZero _ _ = False"

fun validate1 :: "closure \<Rightarrow> jsv \<Rightarrow> jsv \<Rightarrow> bool res" where
  "validate1 VExclusiveMinimum bound value = ret (isEmpty value \<or> js_gt value bound)"
| "validate1 VExclusiveMaximum bound value = ret (isEmpty value \<or> js_lt value bound)"
| "validate1 VMultipleOf m value = ret (isEmpty value \<or> remainderIsZero value m)"
| "validate1 VMinItems n value = ret (isEmpty value \<or> js_ge (lengthOf value) n)"
| "validate1 VMaxItems n value = ret (isEmpty value \<or> js_le (lengthOf value) n)"
| "validate1 VUniqueItems u value =
     (if isEmpty value \<or> \<not> truthy u then ret True
      else (case value of Arr xs \<Rightarrow> ret (distinct xs) | _ \<Rightarrow> throw TypeError))"
| "validate1 VConst c value = ret (strictEq value c)"
| "validate1 _ _ value = throw TypeError"

definition applyValidator :: "closure \<Rightarrow> jsv list \<Rightarrow> jsv \<Rightarrow> bool res" where
  "applyValidator c args value =
     (case args of
        [] \<Rightarrow> if c = VNull then ret (value = Null) else throw TypeError
      | [a] \<Rightarrow> validate1 c a value
      | _ \<Rightarrow> throw TypeError)"

text \<open>Calling the validator found under a name of \<open>field.validators\<close>.\<close>

definition runValidator :: "jsv \<Rightarrow> jsv \<Rightarrow> bool res" where
  "runValidator fn value = (case fn of Fun c args \<Rightarrow> applyValidator c args value | _ \<Rightarrow> throw TypeError)"

definition validatorOf :: "jsv \<Rightarrow> string \<Rightarrow> jsv" where
  "validatorOf f name = get (get f ''validators'') name"

subsection \<open>Fields at run time\<close>

text \<open>
  What the functions of the union read from a field of the rendered form: its key (empty
  when the field has none), its field group (absent on a leaf), and whether its form
  control is valid (absent when the field has no control). The ancestors of a field are
  given as a list, the parent first.
\<close>

datatype rfield = RField (rkey: string) (rgroup: "rfield list option") (rvalid: "bool option")

text \<open>
  \<open>getKeyPath\<close>: a field without a key gives the empty path. For a field with a key the
  function fills the cache \<open>field._keyPath\<close> and ends without a \<open>return\<close> statement, so its
  value is \<open>undefined\<close> (\<open>None\<close>).
\<close>

definition getKeyPath :: "rfield \<Rightarrow> string list option" where
  "getKeyPath field = (if rkey field = [] then Some [] else None)"

text \<open>
  \<open>getFieldInitialValue\<close>: the loop over the parents spreads both key paths into a new
  array, and the loop over the path iterates it; spreading or iterating \<open>undefined\<close> throws.
\<close>

fun climb :: "string list option \<Rightarrow> rfield list \<Rightarrow> string list option res" where
  "climb paths [] = ret paths"
| "climb paths (parent # ancestors) =
     (case (getKeyPath parent, paths) of
        (Some xs, Some ys) \<Rightarrow> climb (Some (xs @ ys)) ancestors
      | _ \<Rightarrow> throw TypeError)"

fun walk :: "jsv \<Rightarrow> string list \<Rightarrow> jsv" where
  "walk value [] = value"
| "walk value (path # paths) = (if \<not> truthy value then Undefined else walk (get value path) paths)"

definition getFieldInitialValue :: "jsv \<Rightarrow> rfield list \<Rightarrow> rfield \<Rightarrow> jsv res" where
  "getFieldInitialValue initialModel ancestors field =
     bindR (climb (getKeyPath field) ancestors) (\<lambda>paths.
       case paths of None \<Rightarrow> throw TypeError | Some ps \<Rightarrow> ret (walk initialModel ps))"

text \<open>\<open>totalMatchedFields\<close> and \<open>isFieldValid\<close>.\<close>

fun totalMatchedFields :: "jsv \<Rightarrow> rfield list \<Rightarrow> rfield \<Rightarrow> nat res"
  and sumMatched :: "jsv \<Rightarrow> rfield list \<Rightarrow> nat \<Rightarrow> rfield list \<Rightarrow> nat res"
where
  "totalMatchedFields initialModel ancestors (RField key grp valid) =
     (if key \<noteq> [] \<and> grp = None
      then bindR (getFieldInitialValue initialModel ancestors (RField key grp valid))
             (\<lambda>v. ret (if v \<noteq> Undefined then 1 else 0))
      else (case grp of
              None \<Rightarrow> throw TypeError
            | Some fs \<Rightarrow> sumMatched initialModel (RField key grp valid # ancestors) 0 fs))"
| "sumMatched initialModel ancestors s [] = ret s"
| "sumMatched initialModel ancestors s (f # fs) =
     bindR (totalMatchedFields initialModel ancestors f)
       (\<lambda>n. sumMatched initialModel ancestors (n + s) fs)"

fun isFieldValid :: "rfield \<Rightarrow> bool res"
  and everyValid :: "rfield list \<Rightarrow> bool res"
where
  "isFieldValid (RField key grp valid) =
     (if key \<noteq> [] then (case valid of Some b \<Rightarrow> ret b | None \<Rightarrow> throw TypeError)
      else (case grp of None \<Rightarrow> throw TypeError | Some fs \<Rightarrow> everyValid fs))"
| "everyValid [] = ret True"
| "everyValid (f # fs) = bindR (isFieldValid f) (\<lambda>b. if b then everyValid fs else ret False)"

subsection \<open>The visibility of a union branch\<close>

text \<open>
  The branches that pass the filter are sorted by their number of matched fields, larger
  numbers first. The sort is stable. It calls the comparison only when it has two
  elements or more, and then every element is compared at least once, so an exception of
  \<open>totalMatchedFields\<close> on any of them leaves the sort.
\<close>

fun filterValid :: "(rfield \<times> nat) list \<Rightarrow> (rfield \<times> nat) list res" where
  "filterValid [] = ret []"
| "filterValid ((f, i) # xs) =
     bindR (isFieldValid f) (\<lambda>b. bindR (filterValid xs) (\<lambda>ys. ret (if b then (f, i) # ys else ys)))"

definition sortByMatched :: "jsv \<Rightarrow> rfield list \<Rightarrow> (rfield \<times> nat) list \<Rightarrow> (rfield \<times> nat) list res" where
  "sortByMatched initialModel ancestors xs =
     (if length xs \<le> 1 then ret xs
      else bindR (mapR (\<lambda>(f, i). bindR (totalMatchedFields initialModel ancestors f)
                                   (\<lambda>n. ret (n, (f, i)))) xs)
             (\<lambda>counted. ret (map snd (sort_key (\<lambda>(n, x). - int n) counted))))"

definition initialSelection :: "string \<Rightarrow> jsv \<Rightarrow> rfield list \<Rightarrow> rfield list \<Rightarrow> jsv res" where
  "initialSelection mode initialModel ancestors branches =
     bindR (filterValid (zip branches [0..<length branches])) (\<lambda>valid.
     bindR (sortByMatched initialModel ancestors valid) (\<lambda>sorted.
       let value = map snd sorted;
           normalizedValue = Num (if value = [] then 0 else int (hd value))
       in ret (if mode = ''anyOf'' then Arr [normalizedValue] else normalizedValue)))"

text \<open>
  The test on the value of the selector's control:
  \<open>Array.isArray(v) ? v.indexOf(i) === -1 : v !== i\<close>.
\<close>

definition hiddenBy :: "jsv \<Rightarrow> nat \<Rightarrow> bool" where
  "hiddenBy v i = (case v of Arr xs \<Rightarrow> Num (int i) \<notin> set xs | _ \<Rightarrow> v \<noteq> Num (int i))"

text \<open>
  The \<open>hideExpression\<close> of branch \<open>i\<close>. The state it reads and writes is the control of the
  selector: \<open>None\<close> while \<open>selectField.formControl\<close> is not set, else the value of the
  control. \<open>ancestors\<close> are the ancestors of the branches in the form (\<open>f.parent\<close> first).
  It returns whether the branch is hidden, and the control.
\<close>

definition hideExpression ::
  "string \<Rightarrow> nat \<Rightarrow> jsv \<Rightarrow> rfield list \<Rightarrow> rfield list \<Rightarrow> jsv option \<Rightarrow> (bool \<times> jsv option) res" where
  "hideExpression mode i initialModel ancestors branches control =
     bindR (case control of
              Some v \<Rightarrow> ret v
            | None \<Rightarrow> initialSelection mode initialModel ancestors branches)
       (\<lambda>v. ret (hiddenBy v i, Some v))"

text \<open>
  The control of the selector after an evaluation: the assignment to
  \<open>selectField.formControl\<close> comes after the ranking, so an evaluation that throws leaves
  the control as it was.
\<close>

definition controlAfter :: "jsv option \<Rightarrow> (bool \<times> jsv option) res \<Rightarrow> jsv option" where
  "controlAfter control result = (case result of Some (Inr (h, c)) \<Rightarrow> c | _ \<Rightarrow> control)"

subsection \<open>A rendered union\<close>

text \<open>
  The union of the specification's example: the branches
  \<open>[{properties: {x, y, z}}, {properties: {x}}]\<close> rendered below a root object, every
  control valid, and the model \<open>{x: 1, y: 2}\<close>. The ancestors of the branches are the
  group that holds them, the union field and the root field; none of them has a key.
\<close>

definition leaf :: "string \<Rightarrow> bool \<Rightarrow> rfield" where
  "leaf k valid = RField k None (Some valid)"

definition branchXYZ :: rfield where
  "branchXYZ = RField [] (Some [leaf ''x'' True, leaf ''y'' True, leaf ''z'' True]) None"

definition branchX :: rfield where
  "branchX = RField [] (Some [leaf ''x'' True]) None"

definition branchInvalid :: rfield where
  "branchInvalid = RField [] (Some [leaf ''w'' False]) None"

definition unionAncestors :: "rfield list \<Rightarrow> rfield list" where
  "unionAncestors branches =
     [RField [] (Some branches) None, RField [] (Some []) None, RField [] (Some []) None]"

definition liveModel :: jsv where
  "liveModel = Obj [(''x'', Num 1), (''y'', Num 2)]"

section \<open>Examples of documents\<close>

text \<open>
  A document with a chain of references: \<open>a\<close> refers to \<open>b\<close>. \<open>chainNode\<close> refers to
  \<open>a\<close> and carries a title of its own; \<open>directNode\<close> refers to \<open>b\<close> with the same title.
\<close>

definition chainRoot :: jsv where
  "chainRoot = Obj [(''definitions'', Obj [
      (''a'', Obj [(''$ref'', Str ''#/definitions/b'')]),
      (''b'', Obj [(''type'', Str ''string''), (''title'', Str ''B'')])])]"

definition chainNode :: jsv where
  "chainNode = Obj [(''$ref'', Str ''#/definitions/a''), (''title'', Str ''T'')]"

definition directNode :: jsv where
  "directNode = Obj [(''$ref'', Str ''#/definitions/b''), (''title'', Str ''T'')]"






section \<open>Examples of compilations\<close>

text \<open>
  The title-case pipe on ASCII text: a word starts at a letter or a digit and runs to the
  next white space; its first character is put in upper case and the others in lower case.
\<close>

definition isSpace :: "char \<Rightarrow> bool" where
  "isSpace c = (of_char c = (32::nat) \<or> (9 \<le> (of_char c :: nat) \<and> (of_char c :: nat) \<le> 13))"

definition isLower :: "char \<Rightarrow> bool" where
  "isLower c = (97 \<le> (of_char c :: nat) \<and> (of_char c :: nat) \<le> 122)"

definition isUpper :: "char \<Rightarrow> bool" where
  "isUpper c = (65 \<le> (of_char c :: nat) \<and> (of_char c :: nat) \<le> 90)"

definition isDigit :: "char \<Rightarrow> bool" where
  "isDigit c = (48 \<le> (of_char c :: nat) \<and> (of_char c :: nat) \<le> 57)"

definition toUpper :: "char \<Rightarrow> char" where
  "toUpper c = (if isLower c then char_of ((of_char c :: nat) - 32) else c)"

definition toLower :: "char \<Rightarrow> char" where
  "toLower c = (if isUpper c then char_of ((of_char c :: nat) + 32) else c)"

fun titleWords :: "bool \<Rightarrow> string \<Rightarrow> string" where
  "titleWords inWord [] = []"
| "titleWords inWord (c # s) =
     (if inWord then (if isSpace c then c # titleWords False s else toLower c # titleWords True s)
      else if isLower c \<or> isUpper c \<or> isDigit c then toUpper c # titleWords True s
      else c # titleWords False s)"

definition titleCase :: "string \<Rightarrow> string" where
  "titleCase s = titleWords False s"

text \<open>
  Options without a hook and without a test descriptor, where the \<open>Function\<close> constructor
  rejects every text; and a recursive call for schemas that have no child to compile.
\<close>

definition noParse :: "jsv \<Rightarrow> bool" where
  "noParse src = False"

definition plainEnv :: env where
  "plainEnv = \<lparr>autoClearOpt = Undefined, mapHook = None, testSpec = Undefined, parses = noParse,
     titleCasePipe = titleCase\<rparr>"

definition noChild :: "site \<Rightarrow> env \<Rightarrow> jsv \<Rightarrow> string list \<Rightarrow> jsv resW" where
  "noChild place options schema propKey = None"

section \<open>Triples for steps that may throw\<close>

text \<open>
  \<open>hoare P step Q\<close>: when \<open>P\<close> holds before the step and the step returns, \<open>Q\<close> holds of
  what it returns.
\<close>

definition hoare :: "('a \<Rightarrow> bool) \<Rightarrow> ('a \<Rightarrow> 'b res) \<Rightarrow> ('b \<Rightarrow> bool) \<Rightarrow> bool" where
  "hoare P step Q = (\<forall>x y. P x \<longrightarrow> step x = Some (Inr y) \<longrightarrow> Q y)"

section \<open>Facts about objects\<close>

lemma get_Obj: "get (Obj kvs) k = (case lookup kvs k of Some x \<Rightarrow> x | None \<Rightarrow> Undefined)"
  by (simp add: get_def split: option.splits)

lemma lookup_put: "lookup (put kvs k v) k' = (if k' = k then Some v else lookup kvs k')"
  by (induction kvs) auto

lemma get_set_prop: "isPlainObject d \<Longrightarrow> get (set_prop d k v) k' = (if k' = k then v else get d k')"
  by (cases d) (simp_all add: get_Obj lookup_put)

lemma plain_set_prop: "isPlainObject d \<Longrightarrow> isPlainObject (set_prop d k v)"
  by (cases d) simp_all

lemma isNum_iff: "isNum v \<longleftrightarrow> (\<exists>n. v = Num n)"
  by (cases v) simp_all


section \<open>Facts about sequencing\<close>

lemma res_cases [case_names Diverges Throws Returns]:
  fixes m :: "'a res"
  obtains "m = None" | e where "m = Some (Inl e)" | v where "m = Some (Inr v)"
proof (cases m)
  case None
  then show ?thesis using that(1) by simp
next
  case (Some r)
  then show ?thesis using that(2) that(3) by (cases r) auto
qed

lemma bindR_returns:
  "bindR m f = Some (Inr y) \<longleftrightarrow> (\<exists>x. m = Some (Inr x) \<and> f x = Some (Inr y))"
  by (cases m rule: res_cases) simp_all

lemma bindR_throws:
  "bindR m f = Some (Inl e) \<longleftrightarrow> m = Some (Inl e) \<or> (\<exists>x. m = Some (Inr x) \<and> f x = Some (Inl e))"
  by (cases m rule: res_cases) auto

lemma bindR_ret [simp]: "bindR (ret v) f = f v"
  by (simp add: ret_def)

lemma bindR_throw [simp]: "bindR (throw e) f = throw e"
  by (simp add: throw_def)

lemma ret_eq [simp]: "ret v = Some (Inr w) \<longleftrightarrow> v = w"
  by (simp add: ret_def)

lemma throw_neq_Inr [simp]: "throw e \<noteq> Some (Inr w)"
  by (simp add: throw_def)

lemma ret_neq_throw [simp]: "ret v \<noteq> throw e"
  by (simp add: ret_def throw_def)

lemma throw_eq [simp]: "throw e = Some (Inl e') \<longleftrightarrow> e = e'"
  by (simp add: throw_def)

lemma ret_neq_Inl [simp]: "ret v \<noteq> Some (Inl e)"
  by (simp add: ret_def)

lemma bindW_pureW [simp]: "bindW (pureW v) f = f v"
  by (cases "f v" rule: res_cases) (auto simp: bindW_def pureW_def ret_def)

lemma bindW_returns:
  "bindW m f = Some (Inr (y, w)) \<longleftrightarrow>
     (\<exists>x w1 w2. m = Some (Inr (x, w1)) \<and> f x = Some (Inr (y, w2)) \<and> w = w1 @ w2)"
proof (cases m rule: res_cases)
  case (Returns r)
  obtain x w1 where r: "r = (x, w1)" by (cases r)
  show ?thesis using Returns r
    by (cases "f x" rule: res_cases) (auto simp: bindW_def ret_def)
qed (simp_all add: bindW_def)

lemma bindW_throws:
  "bindW m f = Some (Inl e) \<longleftrightarrow>
     m = Some (Inl e) \<or> (\<exists>x w. m = Some (Inr (x, w)) \<and> f x = Some (Inl e))"
proof (cases m rule: res_cases)
  case (Returns r)
  obtain x w1 where r: "r = (x, w1)" by (cases r)
  show ?thesis using Returns r
    by (cases "f x" rule: res_cases) (auto simp: bindW_def ret_def)
qed (simp_all add: bindW_def)

lemma liftW_returns: "liftW m = Some (Inr (y, w)) \<longleftrightarrow> m = Some (Inr y) \<and> w = []"
  by (cases m rule: res_cases) (auto simp: liftW_def ret_def)

lemma liftW_throws: "liftW m = Some (Inl e) \<longleftrightarrow> m = Some (Inl e)"
  by (cases m rule: res_cases) (auto simp: liftW_def ret_def)

lemma liftW_ret [simp]: "liftW (ret v) = pureW v"
  by (simp add: liftW_def pureW_def)

lemma liftW_throw [simp]: "liftW (throw e) = throw e"
  by (simp add: liftW_def)

lemma bindW_throw [simp]: "bindW (throw e) f = throw e"
  by (simp add: bindW_def)

lemma pureW_eq [simp]: "pureW v = Some (Inr (x, w)) \<longleftrightarrow> v = x \<and> w = []"
  by (auto simp: pureW_def ret_def)

lemma pureW_neq_Inl [simp]: "pureW v \<noteq> Some (Inl e)"
  by (simp add: pureW_def ret_def)

section \<open>Assignments to a field\<close>

lemma get_put: "get (Obj (put kvs k v)) k' = (if k' = k then v else get (Obj kvs) k')"
  by (simp add: get_Obj lookup_put)

lemma setField_returns:
  "setField f k v = Some (Inr f') \<longleftrightarrow> (\<exists>kvs. f = Obj kvs \<and> f' = Obj (put kvs k v))"
  by (cases f) (auto simp: setField_def)

lemma setField_get:
  "setField f k v = Some (Inr f') \<Longrightarrow> get f' k' = (if k' = k then v else get f k')"
  by (auto simp: setField_returns get_put)

lemma setTO_returns:
  "setTO f k v = Some (Inr f') \<longleftrightarrow>
     (\<exists>kvs to. f = Obj kvs \<and> get f ''templateOptions'' = Obj to
        \<and> f' = Obj (put kvs ''templateOptions'' (Obj (put to k v))))"
  by (auto simp: setTO_def bindR_returns setField_returns)

lemma setTO_get:
  "setTO f k v = Some (Inr f') \<Longrightarrow>
     get f' k' = (if k' = ''templateOptions'' then set_prop (get f ''templateOptions'') k v else get f k')"
  by (auto simp: setTO_returns get_put)

lemma addValidator_returns:
  "addValidator f name fn = Some (Inr f') \<longleftrightarrow>
     (\<exists>kvs vs. f = Obj kvs
        \<and> (if truthy (get f ''validators'') then get f ''validators'' else Obj []) = Obj vs
        \<and> f' = Obj (put kvs ''validators'' (Obj (put vs name fn))))"
  by (auto simp: addValidator_def Let_def bindR_returns setField_returns)

lemma pushGroup_returns:
  "pushGroup f x = Some (Inr f') \<longleftrightarrow>
     (\<exists>kvs xs. f = Obj kvs \<and> get f ''fieldGroup'' = Arr xs
        \<and> f' = Obj (put kvs ''fieldGroup'' (Arr (xs @ [x]))))"
  by (auto simp: pushGroup_def setField_returns split: jsv.splits)

section \<open>Facts about triples\<close>

lemma hoareI: "(\<And>x y. P x \<Longrightarrow> step x = Some (Inr y) \<Longrightarrow> Q y) \<Longrightarrow> hoare P step Q"
  by (simp add: hoare_def)

lemma hoareD: "hoare P step Q \<Longrightarrow> P x \<Longrightarrow> step x = Some (Inr y) \<Longrightarrow> Q y"
  by (auto simp: hoare_def)

lemma foldl_bindR: "foldl bindR m steps = bindR m (\<lambda>x. foldl bindR (ret x) steps)"
proof (induction steps arbitrary: m)
  case Nil
  show ?case by (cases m rule: res_cases) (simp_all add: ret_def)
next
  case (Cons s steps)
  have "foldl bindR m (s # steps) = bindR (bindR m s) (\<lambda>x. foldl bindR (ret x) steps)"
    using Cons.IH [of "bindR m s"] by simp
  also have "\<dots> = bindR m (\<lambda>x. bindR (s x) (\<lambda>y. foldl bindR (ret y) steps))"
    by (cases m rule: res_cases) simp_all
  also have "\<dots> = bindR m (\<lambda>x. foldl bindR (ret x) (s # steps))"
  proof -
    have "foldl bindR (ret x) (s # steps) = bindR (s x) (\<lambda>y. foldl bindR (ret y) steps)" for x
      using Cons.IH [of "s x"] by simp
    then show ?thesis by simp
  qed
  finally show ?case .
qed

lemma chain_Nil: "chain [] f = ret f"
  by (simp add: chain_def)

lemma chain_Cons: "chain (s # steps) f = bindR (s f) (chain steps)"
  using foldl_bindR [of "bindR (ret f) s" steps] by (simp add: chain_def [abs_def])

lemma hoare_chain_Nil: "hoare P (chain []) P"
  by (simp add: hoare_def chain_Nil)

lemma hoare_chain_Cons:
  "hoare P s Q \<Longrightarrow> hoare Q (chain steps) R \<Longrightarrow> hoare P (chain (s # steps)) R"
  by (auto simp: hoare_def chain_Cons bindR_returns)

lemma hoare_chain_inv: "list_all (\<lambda>s. hoare P s P) steps \<Longrightarrow> hoare P (chain steps) P"
  by (induction steps) (auto intro: hoare_chain_Nil hoare_chain_Cons)

lemma hoare_whenR: "hoare P step P \<Longrightarrow> hoare P (whenR c step) P"
  by (auto simp: hoare_def whenR_def)

lemma hoare_bindR:
  "hoare P m Q \<Longrightarrow> (\<And>x. hoare Q (f x) R) \<Longrightarrow> hoare P (\<lambda>x. bindR (m x) (f x)) R"
  by (auto simp: hoare_def bindR_returns)

section \<open>allOf tightens numeric bounds, in either order\<close>

lemma rdm_flat_fold:
  "isPlainObject d \<Longrightarrow> flatNums kvs \<Longrightarrow>
   isPlainObject (foldl (\<lambda>d (k, v).
        if isEmpty (get d k) then set_prop d k v
        else if isPlainObject (get d k) \<and> isPlainObject v
          then set_prop d k (reverseDeepMerge (get d k) v)
        else d) d kvs) \<and>
   get (foldl (\<lambda>d (k, v).
        if isEmpty (get d k) then set_prop d k v
        else if isPlainObject (get d k) \<and> isPlainObject v
          then set_prop d k (reverseDeepMerge (get d k) v)
        else d) d kvs) k' =
     (if isEmpty (get d k') then (case lookup kvs k' of Some v \<Rightarrow> v | None \<Rightarrow> get d k') else get d k')"
proof (induction kvs arbitrary: d)
  case Nil
  then show ?case by simp
next
  case (Cons a kvs)
  obtain k v where a: "a = (k, v)" by (cases a)
  from Cons.prems a obtain n where v: "v = Num n" and fl: "flatNums kvs"
    by (auto simp: flatNums_def isNum_iff)
  show ?case
  proof (cases "isEmpty (get d k)")
    case True
    have p: "isPlainObject (set_prop d k v)" using Cons.prems(1) by (rule plain_set_prop)
    show ?thesis using Cons.IH [OF p fl] True a v Cons.prems(1)
      by (auto simp: get_set_prop split: option.splits)
  next
    case False
    show ?thesis using Cons.IH [OF Cons.prems(1) fl] False a v
      by (auto split: option.splits)
  qed
qed

lemma boundsOnly_get:
  assumes "boundsOnly A"
  shows "(\<exists>n. get A k = Num n \<and> k \<in> set (maxProps @ minProps)) \<or> get A k = Undefined"
proof -
  from assms obtain kvs where A: "A = Obj kvs"
    and all: "list_all (\<lambda>(k, v). k \<in> set (maxProps @ minProps) \<and> isNum v) kvs"
    by (auto simp: boundsOnly_def split: jsv.splits)
  show ?thesis
  proof (cases "lookup kvs k")
    case None
    with A show ?thesis by (simp add: get_Obj)
  next
    case (Some v)
    then have "(k, v) \<in> set kvs" by (rule lookup_in_set)
    with all have "k \<in> set (maxProps @ minProps) \<and> isNum v"
      by (auto simp: list_all_iff)
    with A Some show ?thesis by (auto simp: get_Obj isNum_iff)
  qed
qed

lemma boundsOnly_flat: "boundsOnly A \<Longrightarrow> flatNums (own A)"
  by (auto simp: boundsOnly_def flatNums_def list_all_iff split: jsv.splits)

lemma boundsOnly_other:
  "boundsOnly A \<Longrightarrow> k \<notin> set (maxProps @ minProps) \<Longrightarrow> get A k = Undefined"
  using boundsOnly_get [of A k] by auto

lemma resolve_boundsOnly:
  assumes "boundsOnly A"
  shows "resolveSchema (Suc m) root A = ret A"
proof -
  have r: "get A ''$ref'' = Undefined" and a: "get A ''allOf'' = Undefined"
    using assms by (auto intro!: boundsOnly_other simp: maxProps_def minProps_def)
  have "\<not> isNullish A" using assms by (auto simp: boundsOnly_def split: jsv.splits)
  with r a show ?thesis by (simp add: ret_def)
qed

lemma fold_tightenMax:
  "isPlainObject base \<Longrightarrow> distinct props \<Longrightarrow>
   isPlainObject (foldl (tightenMax schema) base props) \<and>
   get (foldl (tightenMax schema) base props) k =
     (if k \<in> set props \<and> \<not> isEmpty (get base k) \<and> \<not> isEmpty (get schema k)
      then (if js_lt (get base k) (get schema k) then get base k else get schema k)
      else get base k)"
proof (induction props arbitrary: base)
  case Nil
  then show ?case by simp
next
  case (Cons p props)
  let ?b = "tightenMax schema base p"
  have pl: "isPlainObject ?b" using Cons.prems(1) by (simp add: tightenMax_def plain_set_prop)
  have d: "distinct props" and np: "p \<notin> set props" using Cons.prems(2) by auto
  have g: "\<And>k'. get ?b k' = (if k' = p \<and> \<not> isEmpty (get base p) \<and> \<not> isEmpty (get schema p)
      then (if js_lt (get base p) (get schema p) then get base p else get schema p) else get base k')"
    using Cons.prems(1) by (simp add: tightenMax_def get_set_prop)
  show ?case using Cons.IH [OF pl d] np by (auto simp: g)
qed

lemma fold_tightenMin:
  "isPlainObject base \<Longrightarrow> distinct props \<Longrightarrow>
   isPlainObject (foldl (tightenMin schema) base props) \<and>
   get (foldl (tightenMin schema) base props) k =
     (if k \<in> set props \<and> \<not> isEmpty (get base k) \<and> \<not> isEmpty (get schema k)
      then (if js_gt (get base k) (get schema k) then get base k else get schema k)
      else get base k)"
proof (induction props arbitrary: base)
  case Nil
  then show ?case by simp
next
  case (Cons p props)
  let ?b = "tightenMin schema base p"
  have pl: "isPlainObject ?b" using Cons.prems(1) by (simp add: tightenMin_def plain_set_prop)
  have d: "distinct props" and np: "p \<notin> set props" using Cons.prems(2) by auto
  have g: "\<And>k'. get ?b k' = (if k' = p \<and> \<not> isEmpty (get base p) \<and> \<not> isEmpty (get schema p)
      then (if js_gt (get base p) (get schema p) then get base p else get schema p) else get base k')"
    using Cons.prems(1) by (simp add: tightenMin_def get_set_prop)
  show ?case using Cons.IH [OF pl d] np by (auto simp: g)
qed

lemma rdm_flat:
  assumes "isPlainObject d" "flatNums (own s)"
  shows "isPlainObject (reverseDeepMerge d s)"
    and "get (reverseDeepMerge d s) k =
      (if isEmpty (get d k) then (case lookup (own s) k of Some v \<Rightarrow> v | None \<Rightarrow> get d k) else get d k)"
  using rdm_flat_fold [OF assms, of k] by (simp_all add: reverseDeepMerge.simps)

lemma mergeAllOf_bounds:
  assumes b: "numsOrAbsent base" and s: "boundsOnly schema"
  shows "\<exists>b'. mergeAllOf base schema = ret b' \<and> numsOrAbsent b' \<and>
            (\<forall>k. get b' k = tighter k (get base k) (get schema k))"
proof -
  have req: "get schema ''required'' = Undefined" and uq: "get schema ''uniqueItems'' = Undefined"
    using s by (auto intro!: boundsOnly_other simp: maxProps_def minProps_def)
  let ?b3 = "foldl (tightenMax schema) base maxProps"
  let ?b4 = "foldl (tightenMin schema) ?b3 minProps"
  let ?r = "reverseDeepMerge ?b4 schema"
  have m: "mergeAllOf base schema = ret ?r"
    by (simp add: mergeAllOf_def mergeRequired_def req uq ret_def)
  have pb: "isPlainObject base" using b by (simp add: numsOrAbsent_def)
  have dmax: "distinct maxProps" and dmin: "distinct minProps"
    by (simp_all add: maxProps_def minProps_def)
  note t3 = fold_tightenMax [OF pb dmax, of schema]
  have p3: "isPlainObject ?b3" using t3 by simp
  note t4 = fold_tightenMin [OF p3 dmin, of schema]
  have p4: "isPlainObject ?b4" using t4 by simp
  note r = rdm_flat [OF p4 boundsOnly_flat [OF s]]
  have disj: "k \<in> set maxProps \<Longrightarrow> k \<notin> set minProps" for k
    by (auto simp: maxProps_def minProps_def)
  have val: "get ?r k = tighter k (get base k) (get schema k)" for k
  proof -
    from b have bk: "(\<exists>n. get base k = Num n) \<or> get base k = Undefined"
      by (simp add: numsOrAbsent_def)
    from boundsOnly_get [OF s, of k]
    have sk: "(\<exists>n. get schema k = Num n \<and> k \<in> set (maxProps @ minProps)) \<or> get schema k = Undefined" .
    have "isNum v" if "lookup (own schema) k = Some v" for v
      using lookup_in_set [OF that] boundsOnly_flat [OF s] by (auto simp: flatNums_def)
    then have lk: "lookup (own schema) k = None \<longleftrightarrow> get schema k = Undefined"
      using s by (cases "lookup (own schema) k") (auto simp: get_def boundsOnly_def isNum_iff split: jsv.splits)
    have lk2: "lookup (own schema) k = Some v \<Longrightarrow> get schema k = v" for v
      by (simp add: get_def)
    show ?thesis
      using bk sk disj [of k] lk lk2
      by (auto simp: r(2) t4 [THEN conjunct2] t3 [THEN conjunct2] js_gt_def split: option.splits)
  qed
  have "numsOrAbsent ?r"
    unfolding numsOrAbsent_def
  proof (intro conjI allI)
    show "isPlainObject ?r" by (rule r(1))
    fix k
    from b have bk: "(\<exists>n. get base k = Num n) \<or> get base k = Undefined"
      by (simp add: numsOrAbsent_def)
    from boundsOnly_get [OF s, of k]
    have sk: "(\<exists>n. get schema k = Num n \<and> k \<in> set (maxProps @ minProps)) \<or> get schema k = Undefined" .
    show "(\<exists>n. get ?r k = Num n) \<or> get ?r k = Undefined"
      using bk sk by (auto simp: val)
  qed
  with m val show ?thesis by blast
qed

lemma numsOrAbsent_empty: "numsOrAbsent (Obj [])"
  by (simp add: numsOrAbsent_def get_Obj)

lemma allOf_pair:
  assumes A: "boundsOnly A" and B: "boundsOnly B"
  shows "\<exists>R. resolveSchema (n + 5) root (Obj [(''allOf'', Arr [A, B])]) = Some (Inr R)
            \<and> (\<forall>k. get R k = effectiveBound A B k)"
proof -
  from mergeAllOf_bounds [OF numsOrAbsent_empty A]
  obtain b1 where m1: "mergeAllOf (Obj []) A = ret b1" and n1: "numsOrAbsent b1"
    and g1: "\<And>k. get b1 k = tighter k (get (Obj []) k) (get A k)" by blast
  from mergeAllOf_bounds [OF n1 B]
  obtain b2 where m2: "mergeAllOf b1 B = ret b2"
    and g2: "\<And>k. get b2 k = tighter k (get b1 k) (get B k)" by blast
  have f: "n + 5 = Suc (Suc (Suc (Suc (Suc n))))" by simp
  have g: "get (Obj [(''allOf'', Arr [A, B])]) ''allOf'' = Arr [A, B]"
    and r: "get (Obj [(''allOf'', Arr [A, B])]) ''$ref'' = Undefined"
    by (simp_all add: get_Obj)
  have red: "reduceAllOf (Suc (Suc (Suc n))) root (Obj []) [A, B] = ret b2"
    by (simp only: reduceAllOf.simps resolve_boundsOnly [OF A] resolve_boundsOnly [OF B] m1 m2 ret_def bindR.simps)
  have "resolveSchema (n + 5) root (Obj [(''allOf'', Arr [A, B])]) = ret b2"
    unfolding f by (simp add: g r red del_def ret_def del: reduceAllOf.simps)
  moreover have "get b2 k = effectiveBound A B k" for k
    by (simp add: g2 g1 get_Obj effectiveBound_def)
  ultimately show ?thesis by (auto simp: ret_def)
qed

lemma tighter_commute:
  assumes "boundsOnly A" "boundsOnly B"
  shows "effectiveBound A B k = effectiveBound B A k"
  using boundsOnly_get [OF assms(1), of k] boundsOnly_get [OF assms(2), of k]
  by (auto simp: effectiveBound_def max.commute min.commute)

text \<open>
  Claim C2. For two schemas \<open>A\<close> and \<open>B\<close> that carry only numeric-bound keys, resolving
  \<open>allOf: [A, B]\<close> and \<open>allOf: [B, A]\<close> both return, and every property of the two
  results is the same: the tighter bound where both carry the keyword (maximum of the
  minimum family, minimum of the maximum family), the single bound otherwise.
\<close>

theorem allOf_bounds_commute:
  assumes "boundsOnly A" and "boundsOnly B"
  shows "\<exists>R1 R2.
      resolveSchema (n + 5) root (Obj [(''allOf'', Arr [A, B])]) = Some (Inr R1)
    \<and> resolveSchema (n + 5) root (Obj [(''allOf'', Arr [B, A])]) = Some (Inr R2)
    \<and> (\<forall>k. get R1 k = get R2 k \<and> get R1 k = effectiveBound A B k)"
proof -
  from allOf_pair [OF assms(1) assms(2)] obtain R1 where
    1: "resolveSchema (n + 5) root (Obj [(''allOf'', Arr [A, B])]) = Some (Inr R1)"
    and g1: "\<And>k. get R1 k = effectiveBound A B k" by blast
  from allOf_pair [OF assms(2) assms(1)] obtain R2 where
    2: "resolveSchema (n + 5) root (Obj [(''allOf'', Arr [B, A])]) = Some (Inr R2)"
    and g2: "\<And>k. get R2 k = effectiveBound B A k" by blast
  show ?thesis using 1 2 g1 g2 tighter_commute [OF assms] by auto
qed

theorem allOf_bounds_commute_witness:
  "boundsOnly (Obj [(''minimum'', Num 1)]) \<and> boundsOnly (Obj [(''minimum'', Num 5)]) \<and>
   (\<exists>R1 R2.
      resolveSchema 5 Null (Obj [(''allOf'', Arr [Obj [(''minimum'', Num 1)], Obj [(''minimum'', Num 5)]])]) = Some (Inr R1)
    \<and> resolveSchema 5 Null (Obj [(''allOf'', Arr [Obj [(''minimum'', Num 5)], Obj [(''minimum'', Num 1)]])]) = Some (Inr R2)
    \<and> get R1 ''minimum'' = Num 5 \<and> get R2 ''minimum'' = Num 5)"
proof -
  have a: "boundsOnly (Obj [(''minimum'', Num 1)])" and b: "boundsOnly (Obj [(''minimum'', Num 5)])"
    by (simp_all add: boundsOnly_def minProps_def)
  have e: "effectiveBound (Obj [(''minimum'', Num 1)]) (Obj [(''minimum'', Num 5)]) ''minimum'' = Num 5"
    by (simp add: effectiveBound_def get_Obj minProps_def)
  from allOf_bounds_commute [OF a b, of 0 Null] obtain R1 R2 where
    1: "resolveSchema 5 Null (Obj [(''allOf'', Arr [Obj [(''minimum'', Num 1)], Obj [(''minimum'', Num 5)]])]) = Some (Inr R1)"
    and 2: "resolveSchema 5 Null (Obj [(''allOf'', Arr [Obj [(''minimum'', Num 5)], Obj [(''minimum'', Num 1)]])]) = Some (Inr R2)"
    and g: "\<And>k. get R1 k = get R2 k \<and> get R1 k = effectiveBound (Obj [(''minimum'', Num 1)]) (Obj [(''minimum'', Num 5)]) k"
    by auto
  from g [of "''minimum''"] e have "get R1 ''minimum'' = Num 5" "get R2 ''minimum'' = Num 5" by metis+
  with 1 2 a b show ?thesis by blast
qed


section \<open>The visibility of union branches\<close>

lemma keyed_leaf_throws:
  "key \<noteq> [] \<Longrightarrow> totalMatchedFields im anc (RField key None v) = throw TypeError"
  by (cases anc) (simp_all add: getFieldInitialValue_def getKeyPath_def ret_def throw_def)

text \<open>
  Claim C1. The specification's example: two branches, both valid, the selector without
  a control. The first evaluation of the visibility of branch 0 does not initialise the
  selector to branch 0: counting the matched fields of a branch reaches a leaf with a key,
  \<open>getKeyPath\<close> gives \<open>undefined\<close> for it, and \<open>getFieldInitialValue\<close> throws a TypeError
  out of the sort.
\<close>

theorem union_example_throws:
  "hideExpression ''oneOf'' 0 liveModel (unionAncestors [branchXYZ, branchX])
     [branchXYZ, branchX] None = Some (Inl TypeError)"
  by code_simp

lemma initial_shape:
  assumes "initialSelection mode im anc bs = Some (Inr v)"
  shows "\<exists>k. v = (if mode = ''anyOf'' then Arr [Num (int k)] else Num (int k))"
proof -
  from assms obtain valid where 1: "filterValid (zip bs [0..<length bs]) = Some (Inr valid)"
    by (cases "filterValid (zip bs [0..<length bs])" rule: res_cases) (auto simp: initialSelection_def)
  with assms obtain sorted where 2: "sortByMatched im anc valid = Some (Inr sorted)"
    by (cases "sortByMatched im anc valid" rule: res_cases) (auto simp: initialSelection_def)
  let ?k = "if map snd sorted = [] then 0 else hd (map snd sorted)"
  have n: "(if map snd sorted = [] then 0 else int (hd (map snd sorted))) = int ?k" by simp
  from assms have "v = (if mode = ''anyOf'' then Arr [Num (int ?k)] else Num (int ?k))"
    unfolding initialSelection_def 1 2 bindR.simps Let_def n by (simp split: if_splits)
  then show ?thesis ..
qed

lemma hiddenBy_list: "hiddenBy (Arr xs) j \<longleftrightarrow> Num (int j) \<notin> set xs"
  by (simp add: hiddenBy_def)

lemma hiddenBy_value: "\<not> isArray v \<Longrightarrow> hiddenBy v j \<longleftrightarrow> v \<noteq> Num (int j)"
  by (cases v) (simp_all add: hiddenBy_def)

text \<open>
  Once the selector has a control, the ranking is never run: the answer is the test on the
  value of the control, whatever the form holds, and the control is left as it is.
\<close>

lemma stored_control_answers:
  "hideExpression mode j im anc bs (Some v) = Some (Inr (hiddenBy v j, Some v))"
  by (simp add: hideExpression_def ret_def)

text \<open>
  When the first evaluation returns, it has stored the initial selection: a one-element
  list for \<open>anyOf\<close>, an index otherwise.
\<close>

lemma first_evaluation_stores:
  assumes "hideExpression mode i im anc bs None = Some (Inr (h, c))"
  shows "\<exists>v k. c = Some v \<and> initialSelection mode im anc bs = Some (Inr v) \<and> h = hiddenBy v i
       \<and> v = (if mode = ''anyOf'' then Arr [Num (int k)] else Num (int k))"
proof -
  from assms obtain v where v: "initialSelection mode im anc bs = Some (Inr v)"
    and c: "c = Some v" and h: "h = hiddenBy v i"
    by (cases "initialSelection mode im anc bs" rule: res_cases) (auto simp: hideExpression_def ret_def)
  from initial_shape [OF v] obtain k where "v = (if mode = ''anyOf'' then Arr [Num (int k)] else Num (int k))" ..
  with v c h show ?thesis by blast
qed

text \<open>
  Claim C4. On the union of the specification's example the first evaluation of a branch's
  visibility finds the selector without a control, ranks the branches and throws, so no
  control is stored. The next evaluation, of the other branch, finds the selector without a
  control again and ranks again (an evaluation that finds a control cannot throw, by
  \<open>stored_control_answers\<close>): the initial value is not computed once and reused.
\<close>

theorem union_example_ranks_again:
  "hideExpression ''oneOf'' 0 liveModel (unionAncestors [branchXYZ, branchX])
     [branchXYZ, branchX] None = Some (Inl TypeError)
   \<and> controlAfter None (hideExpression ''oneOf'' 0 liveModel (unionAncestors [branchXYZ, branchX])
        [branchXYZ, branchX] None) = None
   \<and> hideExpression ''oneOf'' 1 liveModel (unionAncestors [branchXYZ, branchX])
        [branchXYZ, branchX]
        (controlAfter None (hideExpression ''oneOf'' 0 liveModel (unionAncestors [branchXYZ, branchX])
           [branchXYZ, branchX] None)) = Some (Inl TypeError)"
  by code_simp

section \<open>References\<close>

lemma lookup_putAll:
  "lookup (putAll kvs new) p = (case lookup (rev new) p of Some v \<Rightarrow> Some v | None \<Rightarrow> lookup kvs p)"
proof (induction new arbitrary: kvs)
  case Nil
  then show ?case by (simp add: putAll_def)
next
  case (Cons a new)
  obtain k v where a: "a = (k, v)" by (cases a)
  have l: "lookup (xs @ [(k, v)]) p = (case lookup xs p of Some x \<Rightarrow> Some x | None \<Rightarrow> if k = p then Some v else None)" for xs
    by (induction xs) auto
  have "lookup (putAll (put kvs k v) new) p =
        (case lookup (rev new) p of Some v \<Rightarrow> Some v | None \<Rightarrow> lookup (put kvs k v) p)"
    using Cons.IH [of "put kvs k v"] .
  then show ?case using a by (auto simp: putAll_def l lookup_put split: option.splits)
qed

lemma lookup_annotations:
  "lookup (rev (annotations schema)) p =
     (if p \<in> {''title'', ''description'', ''default''} \<and> hasOwn schema p then Some (get schema p) else None)"
  by (auto simp: annotations_def)

text \<open>
  A reference that points at a schema without a reference of its own: the annotations of
  the referencing node override those of the target.
\<close>

lemma direct_annotations:
  assumes "get schema ''$ref'' = Str r" and "hd (splitHashSlash [] r) = []"
    and "truthy (findDefinition root r)" and "\<not> truthy (get (findDefinition root r) ''$ref'')"
    and "p \<in> {''title'', ''description'', ''default''}"
  shows "\<exists>s. resolveDefinition (Suc n) root schema = Some (Inr s)
     \<and> get s p = (if hasOwn schema p then get schema p else get (findDefinition root r) p)"
proof -
  have "resolveDefinition (Suc n) root schema
        = ret (Obj (putAll (own (findDefinition root r)) (annotations schema)))"
    using assms(1-4) by simp
  moreover have "get (Obj (putAll (own (findDefinition root r)) (annotations schema))) p
     = (if hasOwn schema p then get schema p else get (findDefinition root r) p)"
    using assms(5) by (auto simp: get_Obj lookup_putAll lookup_annotations get_def split: option.splits)
  ultimately show ?thesis by (simp add: ret_def)
qed

text \<open>
  Claim C5. Through a chain of references the title of the referencing node does not
  override the title of the target: \<open>resolveDefinition\<close> calls itself on the intermediate
  definition and returns what that call returns, so the annotations of the node it was
  given are not applied. The same node referring to the target directly keeps its title.
\<close>

theorem chain_drops_annotation:
  "resolveSchema 3 chainRoot chainNode
     = Some (Inr (Obj [(''type'', Str ''string''), (''title'', Str ''B'')]))
   \<and> resolveSchema 3 chainRoot directNode
     = Some (Inr (Obj [(''type'', Str ''string''), (''title'', Str ''T'')]))"
  by code_simp

section \<open>Schema defects that end the compilation\<close>








end
